theory Spec2Isabelle
  imports Complex_Main "HOL-Library.Sublist"
begin

section \<open>Data model\<close>

text \<open>
  The payment client of the ticket shop: \<^verbatim>\<open>src/services/amploPayService.ts\<close> (the
  gateway client the application uses), its simulated sibling \<^verbatim>\<open>MockPaymentService\<close>
  and the declarations of \<^verbatim>\<open>types/payment.ts\<close>.

  A JavaScript \<^verbatim>\<open>number\<close> is only stored and handed on by this code, never computed
  with, so any carrier will do; the reals are used. Strings are lists of bytes, the
  UTF-8 encoding of the text: a letter with an accent or a pictograph is the two or
  three bytes below. On well-formed text a substring test gives the same answer on
  these bytes as on the UTF-16 code units JavaScript compares.
\<close>

type_synonym number = real

definition a_tilde :: string where
  "a_tilde = [CHR 0xC3, CHR 0xA3]"

definition a_acute :: string where
  "a_acute = [CHR 0xC3, CHR 0xA1]"

definition A_acute :: string where
  "A_acute = [CHR 0xC3, CHR 0x81]"

definition c_cedilla :: string where
  "c_cedilla = [CHR 0xC3, CHR 0xA7]"

definition i_acute :: string where
  "i_acute = [CHR 0xC3, CHR 0xAD]"

definition o_tilde :: string where
  "o_tilde = [CHR 0xC3, CHR 0xB5]"

definition bullet :: string where
  "bullet = [CHR 0xE2, CHR 0x80, CHR 0xA2]"

definition cross_mark :: string where
  "cross_mark = [CHR 0xE2, CHR 0x9D, CHR 0x8C]"

text \<open>\<^verbatim>\<open>interface TicketSelection\<close>.\<close>

record TicketSelection =
  type :: string
  quantity :: number
  unitPrice :: number
  totalPrice :: number

text \<open>
  A \<^verbatim>\<open>Date\<close>: either parsed from a timestamp string of the gateway
  (\<^verbatim>\<open>new Date(s)\<close>) or an instant in milliseconds, as read from the wall clock by
  \<^verbatim>\<open>new Date()\<close> or computed from such a reading.
\<close>

datatype date = DateOf string | Instant nat

text \<open>
  \<^verbatim>\<open>interface PaymentData\<close>. The field \<^verbatim>\<open>id\<close> is called \<open>id_payment\<close> (\<open>id\<close> is
  the identity function of HOL). The declared type of \<^verbatim>\<open>status\<close> is a union of four
  string literals; at run time it is whatever string was assigned, so it is a string here.
\<close>

record PaymentData =
  id_payment :: string
  amount :: number
  description :: string
  tickets :: "TicketSelection list"
  status :: string
  pixCode :: "string option"
  qrCodeImage :: "string option"
  createdAt :: date
  expiresAt :: "date option"

text \<open>\<^verbatim>\<open>interface CreatePaymentRequest\<close> (fields prefixed where they meet those above).\<close>

record CreatePaymentRequest =
  req_amount :: number
  req_description :: string
  req_tickets :: "TicketSelection list"
  customerEmail :: "string option"
  customerName :: "string option"

text \<open>\<^verbatim>\<open>interface AmploPayResponse\<close> of the service file: the body of a gateway answer.\<close>

record AmploPayResponse =
  res_id :: string
  res_amount :: number
  res_status :: string
  pix_code :: string
  qr_code_url :: "string option"
  expires_at :: string
  created_at :: string

text \<open>
  What \<^verbatim>\<open>response.json()\<close> resolves to. The failing branch reads the fields
  \<^verbatim>\<open>message\<close> and \<^verbatim>\<open>error\<close> of the parsed object, the successful branch reads it at
  type \<^verbatim>\<open>AmploPayResponse\<close>.
\<close>

record json_value =
  message :: "string option"
  error :: "string option"
  payload :: AmploPayResponse

text \<open>
  A thrown value: an \<^verbatim>\<open>Error\<close> object with its \<^verbatim>\<open>name\<close> and \<^verbatim>\<open>message\<close>, or a
  value that is not an instance of \<^verbatim>\<open>Error\<close>.
\<close>

datatype thrown = Error string string | NonError

text \<open>A \<^verbatim>\<open>Response\<close> of \<^verbatim>\<open>fetch\<close>; \<open>json\<close> is the outcome of reading its body.\<close>

record Response =
  status_code :: nat
  statusText :: string
  json :: "thrown + json_value"

text \<open>\<^verbatim>\<open>response.ok\<close>: the status is in the range 200 to 299.\<close>

definition ok :: "Response \<Rightarrow> bool" where
  "ok r = (200 \<le> status_code r \<and> status_code r \<le> 299)"

text \<open>The request handed to \<^verbatim>\<open>fetch\<close>: URL, method, bearer credential, JSON body.\<close>

record requestBody =
  body_amount :: number
  body_description :: string
  payment_method :: string
  expires_in :: nat
  callback_url :: string
  customer :: "(string \<times> string option) option"
  metadata_tickets :: "TicketSelection list"
  metadata_source :: string

record request =
  url :: string
  http_method :: string
  authorization :: string
  body :: "requestBody option"

text \<open>
  What the network does with one attempt, left to itself: it answers after some
  milliseconds, it rejects after some milliseconds, or it never settles.
\<close>

datatype net = Responds nat Response | Rejects nat thrown | Hangs

text \<open>
  Everything the client reads from outside: the gateway (per request and attempt
  number, counted from 0), the QR encoder \<^verbatim>\<open>QRCode.toDataURL\<close>, and for the simulated
  service \<^verbatim>\<open>uuidv4()\<close>, the successive values \<^verbatim>\<open>Math.floor(Math.random() * n)\<close>, the
  successive readings of the wall clock by \<^verbatim>\<open>new Date()\<close>, and what the local time zone
  makes of \<^verbatim>\<open>d.setMinutes(d.getMinutes() + m)\<close> for a date \<open>d\<close> holding a given instant.
\<close>

record io =
  gateway :: "request \<Rightarrow> nat \<Rightarrow> net"
  toDataURL :: "string \<Rightarrow> thrown + string"
  uuidv4 :: string
  random :: "nat \<Rightarrow> nat"
  wallClock :: "nat \<Rightarrow> nat"
  plusMinutesLocal :: "nat \<Rightarrow> nat \<Rightarrow> nat"

section \<open>Retry loop\<close>

definition maxRetries :: nat where
  "maxRetries = 3"

definition retryDelay :: nat where
  "retryDelay = 1000"

text \<open>\<^verbatim>\<open>String.prototype.includes\<close> (\<open>includes\<close> is a keyword of Isabelle).\<close>

fun includes_str :: "string \<Rightarrow> string \<Rightarrow> bool" where
  "includes_str [] sub = (sub = [])"
| "includes_str (c # cs) sub = (prefix sub (c # cs) \<or> includes_str cs sub)"

text \<open>What \<^verbatim>\<open>fetch\<close> rejects with once \<^verbatim>\<open>controller.abort()\<close> has run.\<close>

definition abortError :: thrown where
  "abortError = Error ''AbortError'' ''signal is aborted without reason''"

text \<open>
  One pass through the \<^verbatim>\<open>try\<close> block: \<^verbatim>\<open>fetch\<close> with the signal of a controller that a
  timer aborts after 15000 ms. The result is the time the attempt took and its outcome.
\<close>

fun attempt :: "net \<Rightarrow> nat \<times> (thrown + Response)" where
  "attempt (Responds t r) = (if t < 15000 then (t, Inr r) else (15000, Inl abortError))"
| "attempt (Rejects t e) = (if t < 15000 then (t, Inl e) else (15000, Inl abortError))"
| "attempt Hangs = (15000, Inl abortError)"

definition msg_timeout :: string where
  "msg_timeout =
     ''Timeout: A conex'' @ a_tilde @ ''o demorou muito para responder. Verifique sua internet.''"

definition msg_cors_origins :: string where
  "msg_cors_origins =
     ''Erro de CORS: Configure https://localhost:5173 nas origens permitidas no painel da Amplo Pay.''"

definition msg_connection :: string where
  "msg_connection =
     ''Erro de conex'' @ a_tilde @ ''o: N'' @ a_tilde @ ''o foi poss'' @ i_acute
     @ ''vel conectar com o servidor de pagamentos.''"

text \<open>The \<^verbatim>\<open>catch\<close> block of the last attempt: what is thrown for the error caught.\<close>

fun lastAttemptFailed :: "thrown \<Rightarrow> thrown" where
  "lastAttemptFailed (Error n m) =
     (if n = ''AbortError'' then Error ''Error'' msg_timeout
      else if includes_str m ''CORS'' \<or> includes_str m ''cors'' then Error ''Error'' msg_cors_origins
      else if includes_str m ''fetch'' then Error ''Error'' msg_connection
      else Error n m)"
| "lastAttemptFailed NonError = NonError"

text \<open>What the loop does, in order: an attempt (with its duration) or a pause, in ms.\<close>

datatype step = Attempt nat | Delay nat

text \<open>
  The \<^verbatim>\<open>for\<close> loop of \<^verbatim>\<open>fetchWithRetry\<close> from counter \<open>i\<close> on, against the behaviour
  \<open>n\<close> of the network per attempt. It returns the outcome and the steps taken.
\<close>

function fetchWithRetry_loop ::
  "(nat \<Rightarrow> net) \<Rightarrow> nat \<Rightarrow> nat \<Rightarrow> (thrown + Response) \<times> step list" where
  "fetchWithRetry_loop n retries i =
     (if i \<le> retries then
        (case attempt (n i) of
           (d, Inr response) \<Rightarrow> (Inr response, [Attempt d])
         | (d, Inl e) \<Rightarrow>
             if i = retries then (Inl (lastAttemptFailed e), [Attempt d])
             else (case fetchWithRetry_loop n retries (i + 1) of
                     (res, tr) \<Rightarrow> (res, Attempt d # Delay (retryDelay * (i + 1)) # tr)))
      else (Inl (Error ''Error'' ''Todas as tentativas falharam''), []))"
  by pat_completeness auto
termination
  by (relation "measure (\<lambda>(n, retries, i). Suc retries - i)") auto

declare fetchWithRetry_loop.simps [simp del]

definition fetchWithRetry :: "io \<Rightarrow> request \<Rightarrow> nat \<Rightarrow> (thrown + Response) \<times> step list" where
  "fetchWithRetry env rq retries = fetchWithRetry_loop (gateway env rq) retries 0"

text \<open>
  The retry policy in the words of the specification: the attempts with the given
  durations, and after the \<open>i\<close>-th of them, when another follows, a pause of \<open>i\<close> seconds.
\<close>

fun spec_schedule :: "nat \<Rightarrow> nat list \<Rightarrow> step list" where
  "spec_schedule i [] = []"
| "spec_schedule i [d] = [Attempt d]"
| "spec_schedule i (d # d' # ds) = Attempt d # Delay (i * 1000) # spec_schedule (i + 1) (d' # ds)"

section \<open>The service and the page it runs in\<close>

text \<open>
  A registered listener \<^verbatim>\<open>(status: string) => void\<close>: which function it is, and for
  each status whether the call returns (\<open>None\<close>) or throws. A listener is code of the
  caller: what it does elsewhere is not part of this model, and it is taken not to call
  back into the service while it runs.
\<close>

datatype callback = Callback nat "string \<Rightarrow> thrown option"

text \<open>
  What the service does to the outside, in order: a listener was called with a status,
  or a \<^verbatim>\<open>paymentStatusUpdate\<close> event with \<^verbatim>\<open>{paymentId, status}\<close> was dispatched on
  \<^verbatim>\<open>window\<close>.
\<close>

datatype effect = Invoked nat string | Dispatched string string

text \<open>
  The callbacks the service hands to \<^verbatim>\<open>setInterval\<close> and \<^verbatim>\<open>setTimeout\<close>: the poll
  tick of \<^verbatim>\<open>startPaymentPolling\<close> (payment id, handle of its own interval), the
  \<^verbatim>\<open>clearInterval(pollInterval)\<close> of its ceiling, and the automatic approval of the
  simulated service.
\<close>

datatype action = PollTick string nat | ClearPoll nat | AutoApprove string

text \<open>A pending timer: when it is due, its period if it recurs, and what it runs.\<close>

record timer =
  due :: nat
  period :: "nat option"
  action :: action

text \<open>
  The fields of the service instance together with the parts of the page they live in.
  \<^verbatim>\<open>payments\<close> maps an id to a reference; the \<^verbatim>\<open>PaymentData\<close> objects themselves are
  in \<open>heap\<close>, since the code mutates them in place and returns them by reference.
  \<open>running\<close> holds the poll ticks that have started and not yet finished (a tick is an
  \<^verbatim>\<open>async\<close> function); \<open>effects\<close> is the log of listener calls and dispatched events.
  \<^verbatim>\<open>maxRetries\<close> and \<^verbatim>\<open>retryDelay\<close> are never assigned after construction and are
  constants above.
\<close>

record world =
  apiKey :: string
  baseUrl :: string
  payments :: "string \<rightharpoonup> nat"
  statusCallbacks :: "string \<rightharpoonup> callback"
  heap :: "nat \<rightharpoonup> PaymentData"
  nextRef :: nat
  hasWindow :: bool
  origin :: string
  now :: nat
  timers :: "nat \<rightharpoonup> timer"
  nextHandle :: nat
  running :: "(string \<times> nat) list"
  effects :: "effect list"

text \<open>JavaScript truthiness of an optional string: present and not empty.\<close>

fun truthy :: "string option \<Rightarrow> bool" where
  "truthy None = False"
| "truthy (Some s) = (s \<noteq> [])"

text \<open>
  The constructor: \<^verbatim>\<open>import.meta.env.X || default\<close> for the credential and the base
  URL, two empty maps. The remaining arguments describe the page.
\<close>

definition AmploPayService_new :: "string option \<Rightarrow> string option \<Rightarrow> bool \<Rightarrow> string \<Rightarrow> nat \<Rightarrow> world" where
  "AmploPayService_new env_key env_url win orig t =
     \<lparr>apiKey = (if truthy env_key then the env_key else []),
      baseUrl = (if truthy env_url then the env_url else ''https://sandbox.amplopay.com.br/v1''),
      payments = Map.empty, statusCallbacks = Map.empty, heap = Map.empty, nextRef = 0,
      hasWindow = win, origin = orig, now = t, timers = Map.empty, nextHandle = 0,
      running = [], effects = []\<rparr>"

text \<open>The record cached under an id: the object the map's reference points to.\<close>

definition cached :: "world \<Rightarrow> string \<Rightarrow> PaymentData option" where
  "cached w paymentId = (case payments w paymentId of None \<Rightarrow> None | Some a \<Rightarrow> heap w a)"

text \<open>\<^verbatim>\<open>payment.status = s\<close> on the object at reference \<open>a\<close>.\<close>

definition assign_status :: "nat \<Rightarrow> string \<Rightarrow> world \<Rightarrow> world" where
  "assign_status a s w = w\<lparr>heap := (heap w)(a := map_option (\<lambda>p. p\<lparr>status := s\<rparr>) (heap w a))\<rparr>"

text \<open>\<^verbatim>\<open>this.payments.set(paymentId, payment)\<close>.\<close>

definition payments_set :: "string \<Rightarrow> nat \<Rightarrow> world \<Rightarrow> world" where
  "payments_set paymentId a w = w\<lparr>payments := (payments w)(paymentId \<mapsto> a)\<rparr>"

text \<open>Calling a listener: the call is logged, and it returns or throws.\<close>

fun call :: "callback \<Rightarrow> string \<Rightarrow> world \<Rightarrow> (thrown + unit) \<times> world" where
  "call (Callback k f) s w =
     ((case f s of None \<Rightarrow> Inr () | Some e \<Rightarrow> Inl e), w\<lparr>effects := effects w @ [Invoked k s]\<rparr>)"

section \<open>Operations of AmploPayService\<close>

text \<open>\<^verbatim>\<open>onStatusUpdate\<close>.\<close>

definition onStatusUpdate :: "world \<Rightarrow> string \<Rightarrow> callback \<Rightarrow> world" where
  "onStatusUpdate w paymentId cb = w\<lparr>statusCallbacks := (statusCallbacks w)(paymentId \<mapsto> cb)\<rparr>"

text \<open>
  \<^verbatim>\<open>updatePaymentStatus\<close>: the listener first (a throw leaves the method at once), then
  the cached object, then the event on \<^verbatim>\<open>window\<close> when there is one. Handlers of the
  event run inside \<^verbatim>\<open>dispatchEvent\<close>, which does not pass their exceptions on.
\<close>

definition updatePaymentStatus :: "world \<Rightarrow> string \<Rightarrow> string \<Rightarrow> (thrown + unit) \<times> world" where
  "updatePaymentStatus w paymentId s =
     (case (case statusCallbacks w paymentId of
              None \<Rightarrow> (Inr (), w)
            | Some cb \<Rightarrow> call cb s w) of
        (Inl e, w1) \<Rightarrow> (Inl e, w1)
      | (Inr u, w1) \<Rightarrow>
          (let w2 = (case payments w1 paymentId of
                       None \<Rightarrow> w1
                     | Some a \<Rightarrow> payments_set paymentId a (assign_status a s w1));
               w3 = (if hasWindow w2
                     then w2\<lparr>effects := effects w2 @ [Dispatched paymentId s]\<rparr> else w2)
           in (Inr (), w3)))"

text \<open>\<^verbatim>\<open>processWebhook\<close>: logs and delegates; the event data (of any type) is not used.\<close>

definition processWebhook :: "world \<Rightarrow> string \<Rightarrow> string \<Rightarrow> 'e \<Rightarrow> (thrown + unit) \<times> world" where
  "processWebhook w paymentId s eventData = updatePaymentStatus w paymentId s"

definition msg_no_key_query :: string where
  "msg_no_key_query = ''API Key da Amplo Pay n'' @ a_tilde @ ''o configurada''"

text \<open>The request of \<^verbatim>\<open>getPaymentStatus\<close> (\<^verbatim>\<open>fetch\<close> defaults to GET).\<close>

definition statusRequest :: "world \<Rightarrow> string \<Rightarrow> request" where
  "statusRequest w paymentId =
     \<lparr>url = baseUrl w @ ''/payments/'' @ paymentId, http_method = ''GET'',
      authorization = ''Bearer '' @ apiKey w, body = None\<rparr>"

text \<open>
  \<^verbatim>\<open>getPaymentStatus\<close>. The guard on the credential stands before the \<^verbatim>\<open>try\<close>; inside
  it a failed retry loop, a status outside 200..299 and an unreadable body all end in
  \<^verbatim>\<open>this.payments.get(paymentId) || null\<close>. An \<^verbatim>\<open>async\<close> method touches the maps only
  after its last \<^verbatim>\<open>await\<close>, so the state it works on is the one at its completion.
\<close>

definition getPaymentStatus :: "world \<Rightarrow> io \<Rightarrow> string \<Rightarrow> (thrown + nat option) \<times> world" where
  "getPaymentStatus w env paymentId =
     (if apiKey w = [] then (Inl (Error ''Error'' msg_no_key_query), w)
      else
        (case fst (fetchWithRetry env (statusRequest w paymentId) maxRetries) of
           Inl e \<Rightarrow> (Inr (payments w paymentId), w)
         | Inr response \<Rightarrow>
             if \<not> ok response then (Inr (payments w paymentId), w)
             else
               (case json response of
                  Inl e \<Rightarrow> (Inr (payments w paymentId), w)
                | Inr v \<Rightarrow>
                    (case payments w paymentId of
                       Some existingPayment \<Rightarrow>
                         (Inr (Some existingPayment),
                          payments_set paymentId existingPayment
                            (assign_status existingPayment (res_status (payload v)) w))
                     | None \<Rightarrow> (Inr None, w)))))"

text \<open>\<^verbatim>\<open>generateQRCodeImage\<close>: any failure of the encoder becomes one fixed error.\<close>

definition generateQRCodeImage :: "io \<Rightarrow> string \<Rightarrow> thrown + string" where
  "generateQRCodeImage env code =
     (case toDataURL env code of
        Inl e \<Rightarrow> Inl (Error ''Error'' ''Erro ao gerar QR Code'')
      | Inr img \<Rightarrow> Inr img)"

text \<open>Decimal digits of a number, for \<^verbatim>\<open>`Erro ${response.status}: ...`\<close>.\<close>

fun string_of_nat :: "nat \<Rightarrow> string" where
  "string_of_nat n =
     (if n < 10 then [char_of (48 + n)]
      else string_of_nat (n div 10) @ [char_of (48 + n mod 10)])"

definition msg_no_key :: string where
  "msg_no_key =
     ''API Key da Amplo Pay n'' @ a_tilde
     @ ''o configurada. Configure VITE_AMPLO_PAY_API_KEY no arquivo .env''"

definition msg_internal :: string where
  "msg_internal =
     cross_mark @ '' Erro interno do servidor. Tente novamente em alguns instantes.''"

definition msg_invalid_key :: string where
  "msg_invalid_key =
     ''API Key inv'' @ a_acute @ ''lida. Verifique sua configura'' @ c_cedilla @ a_tilde
     @ ''o no arquivo .env''"

definition msg_denied :: string where
  "msg_denied = ''Acesso negado. Verifique as permiss'' @ o_tilde @ ''es da sua API Key''"

text \<open>
  The branch \<^verbatim>\<open>if (!response.ok)\<close> of \<^verbatim>\<open>createPayment\<close>: it reads the error body if it
  can and always throws.
\<close>

definition notOk :: "Response \<Rightarrow> thrown" where
  "notOk response =
     (let errorMessage =
            (case json response of
               Inl e \<Rightarrow> ''Erro '' @ string_of_nat (status_code response) @ '': '' @ statusText response
             | Inr errorData \<Rightarrow>
                 if truthy (message errorData) then the (message errorData)
                 else if truthy (error errorData) then the (error errorData)
                 else ''Erro '' @ string_of_nat (status_code response) @ '': '' @ statusText response)
      in if status_code response = 401
         then Error ''Error'' msg_invalid_key
         else if status_code response = 403
         then Error ''Error'' msg_denied
         else if status_code response = 0
         then Error ''Error''
                ''Erro de CORS: Configure https://localhost:5173 nas origens permitidas no painel da Amplo Pay''
         else if status_code response \<ge> 500
         then Error ''Error'' ''Erro interno da Amplo Pay. Tente novamente em alguns minutos''
         else Error ''Error'' (''Erro ao processar pagamento: '' @ errorMessage))"

text \<open>
  The request of \<^verbatim>\<open>createPayment\<close>: the body with the 900 second expiry, the callback
  URL and the customer when an e-mail address was given (the tickets go into the
  metadata as JSON text; they are kept as the list here).
\<close>

definition createRequest :: "world \<Rightarrow> CreatePaymentRequest \<Rightarrow> request" where
  "createRequest w rq =
     \<lparr>url = baseUrl w @ ''/payments'', http_method = ''POST'',
      authorization = ''Bearer '' @ apiKey w,
      body = Some
        \<lparr>body_amount = req_amount rq, body_description = req_description rq,
         payment_method = ''pix'', expires_in = 900,
         callback_url = origin w @ ''/webhook/amplo-pay'',
         customer = (if truthy (customerEmail rq)
                     then Some (the (customerEmail rq), customerName rq) else None),
         metadata_tickets = req_tickets rq, metadata_source = ''deboxe-eclipse''\<rparr>\<rparr>"

text \<open>
  The \<^verbatim>\<open>try\<close> block of \<^verbatim>\<open>createPayment\<close>. Reading \<^verbatim>\<open>window.location.origin\<close> where
  there is no \<^verbatim>\<open>window\<close> is a \<^verbatim>\<open>ReferenceError\<close>. The object is created, stored in the
  map and returned (by reference) in the last three statements.
\<close>

definition createPayment_try :: "world \<Rightarrow> io \<Rightarrow> CreatePaymentRequest \<Rightarrow> (thrown + nat) \<times> world" where
  "createPayment_try w env rq =
     (if \<not> hasWindow w then (Inl (Error ''ReferenceError'' ''window is not defined''), w)
      else
        (case fst (fetchWithRetry env (createRequest w rq) maxRetries) of
              Inl e \<Rightarrow> (Inl e, w)
            | Inr response \<Rightarrow>
                if \<not> ok response then (Inl (notOk response), w)
                else
                  (case json response of
                     Inl e \<Rightarrow> (Inl e, w)
                   | Inr v \<Rightarrow>
                       (let amploPayResponse = payload v in
                        case (if \<not> truthy (qr_code_url amploPayResponse) \<and> pix_code amploPayResponse \<noteq> []
                              then map_sum (\<lambda>e. e) Some
                                     (generateQRCodeImage env (pix_code amploPayResponse))
                              else Inr (qr_code_url amploPayResponse)) of
                          Inl e \<Rightarrow> (Inl e, w)
                        | Inr qrCodeImage' \<Rightarrow>
                            (let paymentData =
                                   \<lparr>id_payment = res_id amploPayResponse,
                                    amount = res_amount amploPayResponse,
                                    description = req_description rq,
                                    tickets = req_tickets rq,
                                    status = res_status amploPayResponse,
                                    pixCode = Some (pix_code amploPayResponse),
                                    qrCodeImage = qrCodeImage',
                                    createdAt = DateOf (created_at amploPayResponse),
                                    expiresAt = Some (DateOf (expires_at amploPayResponse))\<rparr>;
                                 a = nextRef w;
                                 w1 = w\<lparr>heap := (heap w)(a \<mapsto> paymentData), nextRef := Suc a\<rparr>
                             in (Inr a, payments_set (id_payment paymentData) a w1))))))"

text \<open>
  \<^verbatim>\<open>createPayment\<close>: the guard on the credential, the \<^verbatim>\<open>try\<close> block, and the
  \<^verbatim>\<open>catch\<close> that rethrows an \<^verbatim>\<open>Error\<close> and replaces anything else.
\<close>

definition createPayment :: "world \<Rightarrow> io \<Rightarrow> CreatePaymentRequest \<Rightarrow> (thrown + nat) \<times> world" where
  "createPayment w env rq =
     (if apiKey w = [] then (Inl (Error ''Error'' msg_no_key), w)
      else
        (case createPayment_try w env rq of
           (Inl (Error n m), w1) \<Rightarrow> (Inl (Error n m), w1)
         | (Inl NonError, w1) \<Rightarrow> (Inl (Error ''Error'' msg_internal), w1)
         | (Inr a, w1) \<Rightarrow> (Inr a, w1)))"

text \<open>\<^verbatim>\<open>createPixPayment\<close>, the entry point \<^verbatim>\<open>handleAdvance\<close> of the application calls.\<close>

definition createPixPayment ::
  "world \<Rightarrow> io \<Rightarrow> number \<Rightarrow> string \<Rightarrow> TicketSelection list \<Rightarrow> (thrown + nat) \<times> world" where
  "createPixPayment w env amt descr tks =
     createPayment w env
       \<lparr>req_amount = amt, req_description = descr, req_tickets = tks,
        customerEmail = None, customerName = None\<rparr>"

section \<open>Timers and polling\<close>

text \<open>\<^verbatim>\<open>clearInterval(h)\<close>: the timer with that handle, if any, is gone.\<close>

definition clearInterval :: "nat \<Rightarrow> world \<Rightarrow> world" where
  "clearInterval h w = w\<lparr>timers := (timers w)(h := None)\<rparr>"

text \<open>
  \<^verbatim>\<open>startPaymentPolling\<close>: \<^verbatim>\<open>setInterval\<close> for the tick, then \<^verbatim>\<open>setTimeout\<close> for the
  ceiling of \<^verbatim>\<open>20 * 60 * 1000\<close> ms. Handles are handed out in increasing order.
\<close>

definition startPaymentPolling :: "world \<Rightarrow> string \<Rightarrow> nat \<Rightarrow> world" where
  "startPaymentPolling w paymentId intervalMs =
     (let pollInterval = nextHandle w;
          w1 = w\<lparr>timers := (timers w)(pollInterval \<mapsto>
                     \<lparr>due = now w + intervalMs, period = Some intervalMs,
                      action = PollTick paymentId pollInterval\<rparr>),
                 nextHandle := Suc pollInterval\<rparr>;
          ceiling_handle = nextHandle w1
      in w1\<lparr>timers := (timers w1)(ceiling_handle \<mapsto>
               \<lparr>due = now w1 + 20 * 60 * 1000, period = None, action = ClearPoll pollInterval\<rparr>),
            nextHandle := Suc ceiling_handle\<rparr>)"

text \<open>The statuses the tick stops at.\<close>

definition terminal :: "string \<Rightarrow> bool" where
  "terminal s = (s = ''paid'' \<or> s = ''failed'' \<or> s = ''expired'')"

text \<open>
  The body of the interval callback, an \<^verbatim>\<open>async\<close> arrow function, taken at the moment
  its \<^verbatim>\<open>await\<close> resolves. Whatever \<^verbatim>\<open>getPaymentStatus\<close> or \<^verbatim>\<open>updatePaymentStatus\<close>
  throws is caught and logged; what they did before throwing stays done. The status is
  read from the object returned (no object can be missing from the heap while the map
  refers to it; that branch leaves the state alone).
\<close>

definition pollTick :: "world \<Rightarrow> io \<Rightarrow> string \<Rightarrow> nat \<Rightarrow> world" where
  "pollTick w env paymentId pollInterval =
     (case getPaymentStatus w env paymentId of
        (Inl e, w1) \<Rightarrow> w1
      | (Inr None, w1) \<Rightarrow> w1
      | (Inr (Some a), w1) \<Rightarrow>
          (case heap w1 a of
             None \<Rightarrow> w1
           | Some payment \<Rightarrow>
               if terminal (status payment)
               then snd (updatePaymentStatus (clearInterval pollInterval w1) paymentId (status payment))
               else w1))"

text \<open>What a timer callback of the service does when the event loop runs it.\<close>

fun runAction :: "action \<Rightarrow> world \<Rightarrow> world" where
  "runAction (PollTick paymentId h) w = w\<lparr>running := running w @ [(paymentId, h)]\<rparr>"
| "runAction (ClearPoll h) w = clearInterval h w"
| "runAction (AutoApprove paymentId) w = snd (updatePaymentStatus w paymentId ''paid'')"

text \<open>
  The event loop runs the timer with handle \<open>h\<close>: nothing happens unless it is pending
  and due; a one-shot timer is removed, a recurring one is rescheduled one period on.
\<close>

definition fire :: "nat \<Rightarrow> world \<Rightarrow> world" where
  "fire h w =
     (case timers w h of
        None \<Rightarrow> w
      | Some t \<Rightarrow>
          if now w < due t then w
          else runAction (action t)
                 (case period t of
                    None \<Rightarrow> w\<lparr>timers := (timers w)(h := None)\<rparr>
                  | Some p \<Rightarrow> w\<lparr>timers := (timers w)(h \<mapsto> t\<lparr>due := due t + p\<rparr>)\<rparr>))"

text \<open>The \<open>n\<close>-th running poll tick finishes, with what the network did for it.\<close>

definition finish :: "nat \<Rightarrow> io \<Rightarrow> world \<Rightarrow> world" where
  "finish n env w =
     (if n < length (running w)
      then (case running w ! n of
              (paymentId, h) \<Rightarrow>
                pollTick (w\<lparr>running := take n (running w) @ drop (Suc n) (running w)\<rparr>) env paymentId h)
      else w)"

text \<open>
  Everything that can happen to a page with the service in it: time passes, the event
  loop runs a timer or resumes a tick, or one of the public methods is called.
\<close>

datatype event =
    Elapse nat
  | Fire nat
  | Finish nat io
  | Create io CreatePaymentRequest
  | Query io string
  | Subscribe string callback
  | Update string string
  | Webhook string string
  | StartPolling string nat

fun exec :: "event \<Rightarrow> world \<Rightarrow> world" where
  "exec (Elapse d) w = w\<lparr>now := now w + d\<rparr>"
| "exec (Fire h) w = fire h w"
| "exec (Finish n env) w = finish n env w"
| "exec (Create env rq) w = snd (createPayment w env rq)"
| "exec (Query env paymentId) w = snd (getPaymentStatus w env paymentId)"
| "exec (Subscribe paymentId cb) w = onStatusUpdate w paymentId cb"
| "exec (Update paymentId s) w = snd (updatePaymentStatus w paymentId s)"
| "exec (Webhook paymentId s) w = snd (processWebhook w paymentId s ())"
| "exec (StartPolling paymentId ms) w = startPaymentPolling w paymentId ms"

fun run :: "event list \<Rightarrow> world \<Rightarrow> world" where
  "run [] w = w"
| "run (e # es) w = run es (exec e w)"

section \<open>MockPaymentService\<close>

text \<open>
  The simulated service has the same two maps and the same \<^verbatim>\<open>onStatusUpdate\<close>,
  \<^verbatim>\<open>updatePaymentStatus\<close> and \<^verbatim>\<open>processWebhook\<close>; it is modelled on the same state, for a
  page whose service instance it is. It never reads the credential.
\<close>

definition pix_chars :: string where
  "pix_chars = ''0123456789ABCDEFGHIJKLMNOPQRSTUVWXYZ''"

text \<open>
  \<^verbatim>\<open>generateMockPixCode\<close>: 32 characters drawn from all 36, then four drawn from the
  first ten. \<open>random env k\<close> is the \<open>k\<close>-th value of \<^verbatim>\<open>Math.random()\<close> already scaled
  and floored by the caller's bound; the remainder keeps it below the bound.
\<close>

definition generateMockPixCode :: "io \<Rightarrow> string" where
  "generateMockPixCode env =
     ''00020126580014BR.GOV.BCB.PIX0136''
     @ map (\<lambda>i. pix_chars ! (random env i mod length pix_chars)) [0..<32]
     @ ''5204000053039865802BR5925DEBOXE ECLIPSE PAGAMENTO6009SAO PAULO62070503***6304''
     @ map (\<lambda>i. pix_chars ! (random env (32 + i) mod 10)) [0..<4]"

text \<open>
  \<^verbatim>\<open>MockPaymentService.createPayment\<close>, taken at its completion: after the simulated
  delay and the QR encoding it reads the wall clock for \<^verbatim>\<open>expiresAt\<close> and moves that date
  15 minutes on in local time, builds the record (reading the clock again for
  \<^verbatim>\<open>createdAt\<close>), stores it, and sets the timer that approves it 10000 ms later.
\<close>

definition mock_createPayment :: "world \<Rightarrow> io \<Rightarrow> CreatePaymentRequest \<Rightarrow> (thrown + nat) \<times> world" where
  "mock_createPayment w env rq =
     (let paymentId = uuidv4 env;
          pixCode' = generateMockPixCode env
      in case generateQRCodeImage env pixCode' of
           Inl e \<Rightarrow> (Inl e, w)
         | Inr qrCodeImage' \<Rightarrow>
             (let paymentData =
                    \<lparr>id_payment = paymentId, amount = req_amount rq,
                     description = req_description rq, tickets = req_tickets rq,
                     status = ''pending'', pixCode = Some pixCode',
                     qrCodeImage = Some qrCodeImage', createdAt = Instant (wallClock env 1),
                     expiresAt = Some (Instant (plusMinutesLocal env (wallClock env 0) 15))\<rparr>;
                  a = nextRef w;
                  w1 = payments_set paymentId a
                         (w\<lparr>heap := (heap w)(a \<mapsto> paymentData), nextRef := Suc a\<rparr>);
                  h = nextHandle w1
              in (Inr a,
                  w1\<lparr>timers := (timers w1)(h \<mapsto>
                        \<lparr>due = now w1 + 10000, period = None, action = AutoApprove paymentId\<rparr>),
                     nextHandle := Suc h\<rparr>)))"

text \<open>\<^verbatim>\<open>MockPaymentService.getPaymentStatus\<close>: the cache and nothing else.\<close>

definition mock_getPaymentStatus :: "world \<Rightarrow> string \<Rightarrow> (thrown + nat option) \<times> world" where
  "mock_getPaymentStatus w paymentId = (Inr (payments w paymentId), w)"

text \<open>\<^verbatim>\<open>MockPaymentService.startPaymentPolling\<close>: a log line.\<close>

definition mock_startPaymentPolling :: "world \<Rightarrow> string \<Rightarrow> nat \<Rightarrow> world" where
  "mock_startPaymentPolling w paymentId intervalMs = w"

section \<open>The checkout of the application (App.tsx)\<close>

text \<open>The six counters of \<^verbatim>\<open>ticketCounts\<close>, in the order \<^verbatim>\<open>Object.entries\<close> lists them.\<close>

datatype ticketType =
  VipMeia | VipInteira | BackstageMeia | BackstageInteira | InfluencersMeia | InfluencersInteira

record TicketCount =
  vipMeia :: nat
  vipInteira :: nat
  backstageMeia :: nat
  backstageInteira :: nat
  influencersMeia :: nat
  influencersInteira :: nat

definition entries :: "TicketCount \<Rightarrow> (ticketType \<times> nat) list" where
  "entries tc =
     [(VipMeia, vipMeia tc), (VipInteira, vipInteira tc),
      (BackstageMeia, backstageMeia tc), (BackstageInteira, backstageInteira tc),
      (InfluencersMeia, influencersMeia tc), (InfluencersInteira, influencersInteira tc)]"

fun ticketPrices :: "ticketType \<Rightarrow> number" where
  "ticketPrices VipMeia = 1"
| "ticketPrices VipInteira = 130"
| "ticketPrices BackstageMeia = 110"
| "ticketPrices BackstageInteira = 210"
| "ticketPrices InfluencersMeia = 150"
| "ticketPrices InfluencersInteira = 320"

fun ticketNames :: "ticketType \<Rightarrow> string" where
  "ticketNames VipMeia = A_acute @ ''REA VIP - MEIA/SOLID'' @ A_acute @ ''RIA''"
| "ticketNames VipInteira = A_acute @ ''REA VIP - INTEIRA''"
| "ticketNames BackstageMeia = ''BACKSTAGE DEBOXE - MEIA/SOLID'' @ A_acute @ ''RIA''"
| "ticketNames BackstageInteira = ''BACKSTAGE DEBOXE - INTEIRA''"
| "ticketNames InfluencersMeia = A_acute @ ''REA INFLUENCERS - MEIA/SOLID'' @ A_acute @ ''RIA''"
| "ticketNames InfluencersInteira = A_acute @ ''REA INFLUENCERS - INTEIRA''"

definition getTotalTickets :: "TicketCount \<Rightarrow> nat" where
  "getTotalTickets tc = foldl (\<lambda>sum (k, count). sum + count) 0 (entries tc)"

definition getTotalValue :: "TicketCount \<Rightarrow> number" where
  "getTotalValue tc = foldl (\<lambda>total (k, count). total + real count * ticketPrices k) 0 (entries tc)"

definition getTicketSelections :: "TicketCount \<Rightarrow> TicketSelection list" where
  "getTicketSelections tc =
     map (\<lambda>(k, count). \<lparr>type = ticketNames k, quantity = real count,
                         unitPrice = ticketPrices k, totalPrice = real count * ticketPrices k\<rparr>)
       (filter (\<lambda>(k, count). count > 0) (entries tc))"

text \<open>
  Where \<^verbatim>\<open>handleAdvance\<close> ends: the payment modal opened on the record created, or an
  alert with the message of the error and one of four hints, or nothing at all.
\<close>

datatype hint = HintApiKey | HintCors | HintConnection | HintInternal | NoHint

datatype screen = Modal nat | Alert string hint | Untouched

text \<open>
  \<^verbatim>\<open>handleAdvance\<close>: with at least one ticket chosen it asks
  \<^verbatim>\<open>AmploPayService.getInstance()\<close>, and no other service, for a Pix payment.
\<close>

definition handleAdvance :: "world \<Rightarrow> io \<Rightarrow> TicketCount \<Rightarrow> screen \<times> world" where
  "handleAdvance w env tc =
     (if getTotalTickets tc > 0
      then
        (case createPixPayment w env (getTotalValue tc)
                (''DEBOXE '' @ bullet @ '' ECLIPSE - '' @ string_of_nat (getTotalTickets tc)
                 @ '' ingresso(s)'')
                (getTicketSelections tc) of
           (Inr paymentData, w1) \<Rightarrow> (Modal paymentData, w1)
         | (Inl e, w1) \<Rightarrow>
             (let errorMessage = (case e of Error n m \<Rightarrow> m | NonError \<Rightarrow> ''Erro desconhecido'')
              in (Alert errorMessage
                    (if includes_str errorMessage ''API Key'' then HintApiKey
                     else if includes_str errorMessage ''CORS'' then HintCors
                     else if includes_str errorMessage (''conex'' @ a_tilde @ ''o'')
                     then HintConnection
                     else if includes_str errorMessage ''interno'' then HintInternal
                     else NoHint), w1)))
      else (Untouched, w))"

section \<open>Notions used in the statements\<close>

text \<open>The listener calls in a log, in order: which listener, with which status.\<close>

fun invocations :: "effect list \<Rightarrow> (nat \<times> string) list" where
  "invocations [] = []"
| "invocations (Invoked k s # es) = (k, s) # invocations es"
| "invocations (Dispatched i s # es) = invocations es"

text \<open>The listener registered for an id, if there is one, returns when called with \<open>s\<close>.\<close>

definition listener_returns :: "world \<Rightarrow> string \<Rightarrow> string \<Rightarrow> bool" where
  "listener_returns w paymentId s =
     (case statusCallbacks w paymentId of
        None \<Rightarrow> True
      | Some (Callback k f) \<Rightarrow> f s = None)"

text \<open>
  The status query itself failed: the retry loop threw, or the gateway answered outside
  200..299, or the body of its answer could not be read.
\<close>

definition query_failed :: "world \<Rightarrow> io \<Rightarrow> string \<Rightarrow> bool" where
  "query_failed w env paymentId =
     (case fst (fetchWithRetry env (statusRequest w paymentId) maxRetries) of
        Inl e \<Rightarrow> True
      | Inr response \<Rightarrow> \<not> ok response \<or> isl (json response))"

text \<open>
  References are handed out once: no object is cached under two ids, and every
  reference in use lies below the next one to be handed out.
\<close>

definition wf_refs :: "world \<Rightarrow> bool" where
  "wf_refs w =
     ((\<forall>i j a. payments w i = Some a \<and> payments w j = Some a \<longrightarrow> i = j) \<and>
      (\<forall>i a. payments w i = Some a \<longrightarrow> a < nextRef w) \<and>
      (\<forall>a p. heap w a = Some p \<longrightarrow> a < nextRef w))"

text \<open>The timer handle a callback closes over.\<close>

fun target :: "action \<Rightarrow> nat option" where
  "target (PollTick paymentId h) = Some h"
| "target (ClearPoll h) = Some h"
| "target (AutoApprove paymentId) = None"

text \<open>
  Timer handles are handed out once: every pending timer, every handle a pending
  callback closes over and every handle a running tick holds lies below the next one.
\<close>

definition wf_timers :: "world \<Rightarrow> bool" where
  "wf_timers w =
     ((\<forall>h t. timers w h = Some t \<longrightarrow>
         h < nextHandle w \<and> (\<forall>k. target (action t) = Some k \<longrightarrow> k < nextHandle w)) \<and>
      (\<forall>i k. (i, k) \<in> set (running w) \<longrightarrow> k < nextHandle w))"


section \<open>Sample data\<close>

definition ex_tickets :: "TicketSelection list" where
  "ex_tickets = [\<lparr>type = ''VIP'', quantity = 2, unitPrice = 50, totalPrice = 100\<rparr>]"

definition ex_request :: CreatePaymentRequest where
  "ex_request =
     \<lparr>req_amount = 100, req_description = ''2 tickets'', req_tickets = ex_tickets,
      customerEmail = None, customerName = None\<rparr>"

definition ex_count :: TicketCount where
  "ex_count =
     \<lparr>vipMeia = 0, vipInteira = 2, backstageMeia = 0, backstageInteira = 0,
      influencersMeia = 0, influencersInteira = 0\<rparr>"

text \<open>The body of a gateway answer about the payment with the given id and status.\<close>

definition ex_payload :: "string \<Rightarrow> string \<Rightarrow> AmploPayResponse" where
  "ex_payload i s =
     \<lparr>res_id = i, res_amount = 100, res_status = s, pix_code = ''00020126PIX'',
      qr_code_url = None, expires_at = ''2025-01-01T00:15:00Z'',
      created_at = ''2025-01-01T00:00:00Z''\<rparr>"

text \<open>A gateway answer with the given HTTP status.\<close>

definition ex_response :: "nat \<Rightarrow> string \<Rightarrow> string \<Rightarrow> Response" where
  "ex_response code i s =
     \<lparr>status_code = code, statusText = ''-'',
      json = Inr \<lparr>message = None, error = None, payload = ex_payload i s\<rparr>\<rparr>"

text \<open>
  A network that does the same at every attempt, an encoder that works, a wall clock
  that advances by a millisecond per reading, and a time zone without clock changes.
\<close>

definition ex_env :: "net \<Rightarrow> io" where
  "ex_env n =
     \<lparr>gateway = (\<lambda>rq i. n), toDataURL = (\<lambda>s. Inr (''data:image/png;base64,'' @ s)),
      uuidv4 = ''3f2a'', random = (\<lambda>i. i), wallClock = (\<lambda>k. 1735689600000 + k),
      plusMinutesLocal = (\<lambda>t m. t + m * 60000)\<rparr>"

text \<open>Two listeners that return and one that throws.\<close>

definition ex_old_listener :: callback where
  "ex_old_listener = Callback 0 (\<lambda>s. None)"

definition ex_listener :: callback where
  "ex_listener = Callback 1 (\<lambda>s. None)"

definition ex_thrown :: thrown where
  "ex_thrown = Error ''TypeError'' ''listener failed''"

definition ex_throwing_listener :: callback where
  "ex_throwing_listener = Callback 2 (\<lambda>s. Some ex_thrown)"

text \<open>A freshly constructed service, with and without a credential.\<close>

definition ex_world :: world where
  "ex_world = AmploPayService_new (Some ''sk_test'') None True ''https://localhost:5173'' 0"

definition ex_world_no_key :: world where
  "ex_world_no_key = AmploPayService_new None None True ''https://localhost:5173'' 0"

text \<open>The service after one payment, and after a second, created through the gateway.\<close>

definition ex_world_paying :: world where
  "ex_world_paying =
     exec (Create (ex_env (Responds 120 (ex_response 201 ''pay_1'' ''pending''))) ex_request) ex_world"


text \<open>The record that such a payment creates, by its id.\<close>

definition ex_record :: "string \<Rightarrow> PaymentData" where
  "ex_record i =
     \<lparr>id_payment = i, amount = 100, description = ''2 tickets'', tickets = ex_tickets,
      status = ''pending'', pixCode = Some ''00020126PIX'',
      qrCodeImage = Some ''data:image/png;base64,00020126PIX'',
      createdAt = DateOf ''2025-01-01T00:00:00Z'',
      expiresAt = Some (DateOf ''2025-01-01T00:15:00Z'')\<rparr>"

text \<open>A page whose service is the simulated one, after one payment has been created.\<close>

definition ex_world_mock :: world where
  "ex_world_mock = snd (mock_createPayment ex_world_no_key (ex_env Hangs) ex_request)"



text \<open>The service with one payment and a listener for it that returns.\<close>

definition ex_world_listening :: world where
  "ex_world_listening = exec (Subscribe ''pay_1'' ex_listener) ex_world_paying"

text \<open>The service with one payment and a listener for it that throws.\<close>

definition ex_world_throwing :: world where
  "ex_world_throwing = exec (Subscribe ''pay_1'' ex_throwing_listener) ex_world_paying"

section \<open>The retry policy\<close>

lemma attempt_bounded: "fst (attempt x) \<le> 15000"
  by (cases x) auto

lemma attempt_aborted: "fst (attempt x) = 15000 \<Longrightarrow> snd (attempt x) = Inl abortError"
  by (cases x) (auto split: if_splits)

text \<open>
  The loop entered with counter \<open>i\<close> stops at some attempt \<open>m\<close>: the attempts before
  it failed, the pauses between them follow the schedule, and a failure is reported
  only for the last attempt allowed.
\<close>

lemma fetchWithRetry_loop_schedule:
  "i \<le> retries \<Longrightarrow> fetchWithRetry_loop n retries i = (res, tr) \<Longrightarrow>
   (\<exists>m. i \<le> m \<and> m \<le> retries \<and>
      tr = spec_schedule (i + 1) (map (\<lambda>k. fst (attempt (n k))) [i..<Suc m]) \<and>
      (\<forall>k. i \<le> k \<and> k < m \<longrightarrow> isl (snd (attempt (n k)))) \<and>
      (case res of
         Inr r \<Rightarrow> snd (attempt (n m)) = Inr r
       | Inl e \<Rightarrow> m = retries \<and> (\<exists>e'. snd (attempt (n m)) = Inl e' \<and> e = lastAttemptFailed e')))"
proof (induction n retries i arbitrary: res tr rule: fetchWithRetry_loop.induct)
  case (1 n retries i)
  obtain d out where att: "attempt (n i) = (d, out)"
    by (cases "attempt (n i)")
  note step = 1(3)[unfolded fetchWithRetry_loop.simps[of n retries i]]
  show ?case
  proof (cases out)
    case (Inr r)
    with att 1(2) step have "res = Inr r" "tr = [Attempt d]"
      by auto
    with att Inr 1(2) show ?thesis
      by (intro exI[of _ i]) auto
  next
    case (Inl e)
    show ?thesis
    proof (cases "i = retries")
      case True
      with att Inl 1(2) step have "res = Inl (lastAttemptFailed e)" "tr = [Attempt d]"
        by auto
      with att Inl True show ?thesis
        by (intro exI[of _ i]) auto
    next
      case False
      obtain res' tr' where rec: "fetchWithRetry_loop n retries (i + 1) = (res', tr')"
        by (cases "fetchWithRetry_loop n retries (i + 1)")
      with att Inl False 1(2) step
      have eq: "res = res'" "tr = Attempt d # Delay (retryDelay * (i + 1)) # tr'"
        by auto
      from False 1(2) have le: "i + 1 \<le> retries"
        by simp
      from 1(1)[OF 1(2) att[symmetric] Inl False le rec]
      obtain m where m: "i + 1 \<le> m" "m \<le> retries"
        "tr' = spec_schedule (i + 1 + 1) (map (\<lambda>k. fst (attempt (n k))) [i + 1..<Suc m])"
        "\<forall>k. i + 1 \<le> k \<and> k < m \<longrightarrow> isl (snd (attempt (n k)))"
        "case res' of
           Inr r \<Rightarrow> snd (attempt (n m)) = Inr r
         | Inl e \<Rightarrow> m = retries \<and> (\<exists>e'. snd (attempt (n m)) = Inl e' \<and> e = lastAttemptFailed e')"
        by blast
      define rest where "rest = map (\<lambda>k. fst (attempt (n k))) [i + 2..<Suc m]"
      have up': "[i + 1..<Suc m] = (i + 1) # [i + 2..<Suc m]"
        using m(1) by (simp add: upt_conv_Cons del: upt_Suc)
      have up: "[i..<Suc m] = i # (i + 1) # [i + 2..<Suc m]"
        using m(1) up' by (simp add: upt_conv_Cons del: upt_Suc)
      have m1: "map (\<lambda>k. fst (attempt (n k))) [i + 1..<Suc m] = fst (attempt (n (i + 1))) # rest"
        unfolding up' rest_def by simp
      have m0: "map (\<lambda>k. fst (attempt (n k))) [i..<Suc m] = d # fst (attempt (n (i + 1))) # rest"
        unfolding up rest_def using att by simp
      have "tr = spec_schedule (i + 1) (map (\<lambda>k. fst (attempt (n k))) [i..<Suc m])"
        unfolding m0 eq(2) m(3) m1 by (simp add: retryDelay_def)
      moreover have "\<forall>k. i \<le> k \<and> k < m \<longrightarrow> isl (snd (attempt (n k)))"
      proof (intro allI impI)
        fix k assume "i \<le> k \<and> k < m"
        then consider "k = i" | "i + 1 \<le> k \<and> k < m"
          by linarith
        then show "isl (snd (attempt (n k)))"
          using att Inl m(4) by cases auto
      qed
      ultimately show ?thesis
        using m(1,2,5) eq(1) by (intro exI[of _ m]) auto
    qed
  qed
qed

text \<open>
  C4, as the code has it. Every gateway call goes through \<open>fetchWithRetry\<close> with
  \<open>maxRetries\<close> (the two callers, \<open>createPayment_try\<close> and \<open>getPaymentStatus\<close>, pass
  nothing else). Whatever the network does, the call makes \<open>m + 1\<close> attempts with
  \<open>m < 4\<close>; its steps are exactly those attempts with a pause of \<open>i\<close> seconds after the
  \<open>i\<close>-th when another follows; no attempt lasts longer than 15000 ms, and one that
  lasts that long was aborted; every attempt but the last made has failed; a response
  returned is that of the last attempt made; and an error is thrown only when the
  fourth attempt has failed. What is thrown then depends on that attempt's error alone:
  for an \<^verbatim>\<open>AbortError\<close> the timeout error; otherwise, for a message containing
  \<^verbatim>\<open>CORS\<close> or \<^verbatim>\<open>cors\<close>, the CORS error; otherwise, for a message containing
  \<^verbatim>\<open>fetch\<close>, the connection error; and any other error, or a thrown value that is
  no \<^verbatim>\<open>Error\<close>, is rethrown as it is, untranslated.
\<close>

theorem fetchWithRetry_policy:
  assumes "fetchWithRetry env rq maxRetries = (res, tr)"
  shows "\<exists>m<4.
           tr = spec_schedule 1 (map (\<lambda>k. fst (attempt (gateway env rq k))) [0..<Suc m]) \<and>
           (\<forall>k\<le>m. fst (attempt (gateway env rq k)) \<le> 15000 \<and>
                  (fst (attempt (gateway env rq k)) = 15000 \<longrightarrow>
                     snd (attempt (gateway env rq k)) = Inl abortError)) \<and>
           (\<forall>k<m. isl (snd (attempt (gateway env rq k)))) \<and>
           (case res of
              Inr r \<Rightarrow> snd (attempt (gateway env rq m)) = Inr r
            | Inl e \<Rightarrow> m = 3 \<and>
                (\<exists>e'. snd (attempt (gateway env rq 3)) = Inl e' \<and> e = lastAttemptFailed e' \<and>
                   (case e' of
                      NonError \<Rightarrow> e = NonError
                    | Error n msg \<Rightarrow>
                        (n = ''AbortError'' \<longrightarrow> e = Error ''Error'' msg_timeout) \<and>
                        (n \<noteq> ''AbortError'' \<and>
                         (includes_str msg ''CORS'' \<or> includes_str msg ''cors'') \<longrightarrow>
                           e = Error ''Error'' msg_cors_origins) \<and>
                        (n \<noteq> ''AbortError'' \<and> \<not> includes_str msg ''CORS'' \<and>
                         \<not> includes_str msg ''cors'' \<and> includes_str msg ''fetch'' \<longrightarrow>
                           e = Error ''Error'' msg_connection) \<and>
                        (n \<noteq> ''AbortError'' \<and> \<not> includes_str msg ''CORS'' \<and>
                         \<not> includes_str msg ''cors'' \<and> \<not> includes_str msg ''fetch'' \<longrightarrow>
                           e = Error n msg))))"
proof -
  from assms have loop: "fetchWithRetry_loop (gateway env rq) 3 0 = (res, tr)"
    by (simp add: fetchWithRetry_def maxRetries_def)
  from fetchWithRetry_loop_schedule[OF _ loop]
  obtain m where m: "m \<le> 3"
    "tr = spec_schedule (0 + 1) (map (\<lambda>k. fst (attempt (gateway env rq k))) [0..<Suc m])"
    "\<forall>k. 0 \<le> k \<and> k < m \<longrightarrow> isl (snd (attempt (gateway env rq k)))"
    "case res of
       Inr r \<Rightarrow> snd (attempt (gateway env rq m)) = Inr r
     | Inl e \<Rightarrow> m = 3 \<and> (\<exists>e'. snd (attempt (gateway env rq m)) = Inl e' \<and> e = lastAttemptFailed e')"
    by auto
  have translated: "case e' of
                      NonError \<Rightarrow> lastAttemptFailed e' = NonError
                    | Error n msg \<Rightarrow>
                        (n = ''AbortError'' \<longrightarrow> lastAttemptFailed e' = Error ''Error'' msg_timeout) \<and>
                        (n \<noteq> ''AbortError'' \<and>
                         (includes_str msg ''CORS'' \<or> includes_str msg ''cors'') \<longrightarrow>
                           lastAttemptFailed e' = Error ''Error'' msg_cors_origins) \<and>
                        (n \<noteq> ''AbortError'' \<and> \<not> includes_str msg ''CORS'' \<and>
                         \<not> includes_str msg ''cors'' \<and> includes_str msg ''fetch'' \<longrightarrow>
                           lastAttemptFailed e' = Error ''Error'' msg_connection) \<and>
                        (n \<noteq> ''AbortError'' \<and> \<not> includes_str msg ''CORS'' \<and>
                         \<not> includes_str msg ''cors'' \<and> \<not> includes_str msg ''fetch'' \<longrightarrow>
                           lastAttemptFailed e' = Error n msg)" for e'
    by (cases e') simp_all
  have "m < 4"
    using m(1) by simp
  moreover have "tr = spec_schedule 1 (map (\<lambda>k. fst (attempt (gateway env rq k))) [0..<Suc m])"
    using m(2) by simp
  moreover have "\<forall>k<m. isl (snd (attempt (gateway env rq k)))"
    using m(3) by simp
  moreover have "case res of
              Inr r \<Rightarrow> snd (attempt (gateway env rq m)) = Inr r
            | Inl e \<Rightarrow> m = 3 \<and>
                (\<exists>e'. snd (attempt (gateway env rq 3)) = Inl e' \<and> e = lastAttemptFailed e' \<and>
                   (case e' of
                      NonError \<Rightarrow> e = NonError
                    | Error n msg \<Rightarrow>
                        (n = ''AbortError'' \<longrightarrow> e = Error ''Error'' msg_timeout) \<and>
                        (n \<noteq> ''AbortError'' \<and>
                         (includes_str msg ''CORS'' \<or> includes_str msg ''cors'') \<longrightarrow>
                           e = Error ''Error'' msg_cors_origins) \<and>
                        (n \<noteq> ''AbortError'' \<and> \<not> includes_str msg ''CORS'' \<and>
                         \<not> includes_str msg ''cors'' \<and> includes_str msg ''fetch'' \<longrightarrow>
                           e = Error ''Error'' msg_connection) \<and>
                        (n \<noteq> ''AbortError'' \<and> \<not> includes_str msg ''CORS'' \<and>
                         \<not> includes_str msg ''cors'' \<and> \<not> includes_str msg ''fetch'' \<longrightarrow>
                           e = Error n msg)))"
  proof (cases res)
    case (Inr r)
    with m(4) show ?thesis
      by simp
  next
    case (Inl e)
    with m(4) obtain e' where e': "m = 3" "snd (attempt (gateway env rq 3)) = Inl e'"
      "e = lastAttemptFailed e'"
      by auto
    from translated[of e'] e' Inl show ?thesis
      by (auto split: thrown.splits)
  qed
  ultimately show ?thesis
    using attempt_bounded attempt_aborted by blast
qed

lemma ex_env_simps:
  "gateway (ex_env n) rq i = n"
  "toDataURL (ex_env n) s = Inr (''data:image/png;base64,'' @ s)"
  "uuidv4 (ex_env n) = ''3f2a''"
  "random (ex_env n) i = i"
  "wallClock (ex_env n) k = 1735689600000 + k"
  "plusMinutesLocal (ex_env n) t m = t + m * 60000"
  by (simp_all add: ex_env_def)

theorem fetchWithRetry_policy_witness:
  "fetchWithRetry (ex_env Hangs) (statusRequest ex_world ''pay_1'') maxRetries
     = (Inl (Error ''Error'' msg_timeout),
        [Attempt 15000, Delay 1000, Attempt 15000, Delay 2000,
         Attempt 15000, Delay 3000, Attempt 15000]) \<and>
   [Attempt 15000, Delay 1000, Attempt 15000, Delay 2000,
    Attempt 15000, Delay 3000, Attempt 15000]
     = spec_schedule 1 [15000, 15000, 15000, 15000] \<and>
   fetchWithRetry (ex_env (Rejects 40 (Error ''TypeError'' ''Failed to fetch'')))
     (statusRequest ex_world ''pay_1'') maxRetries
     = (Inl (Error ''Error'' msg_connection),
        [Attempt 40, Delay 1000, Attempt 40, Delay 2000, Attempt 40, Delay 3000, Attempt 40])"
proof -
  have h: "fetchWithRetry (ex_env Hangs) (statusRequest ex_world ''pay_1'') maxRetries
     = (Inl (Error ''Error'' msg_timeout),
        [Attempt 15000, Delay 1000, Attempt 15000, Delay 2000,
         Attempt 15000, Delay 3000, Attempt 15000])"
    by (simp add: fetchWithRetry_def fetchWithRetry_loop.simps maxRetries_def retryDelay_def
        ex_env_simps abortError_def)
  have "[Attempt 15000, Delay 1000, Attempt 15000, Delay 2000,
      Attempt 15000, Delay 3000, Attempt 15000] = spec_schedule 1 [15000, 15000, 15000, 15000]"
    by simp
  moreover have g: "fetchWithRetry (ex_env (Rejects 40 (Error ''TypeError'' ''Failed to fetch'')))
     (statusRequest ex_world ''pay_1'') maxRetries
     = (Inl (Error ''Error'' msg_connection),
        [Attempt 40, Delay 1000, Attempt 40, Delay 2000, Attempt 40, Delay 3000, Attempt 40])"
    by (simp add: fetchWithRetry_def fetchWithRetry_loop.simps maxRetries_def retryDelay_def
        ex_env_simps)
  ultimately show ?thesis
    using h fetchWithRetry_policy[OF h] fetchWithRetry_policy[OF g] by blast
qed

theorem fetchWithRetry_policy_counterexample:
  "fetchWithRetry (ex_env (Rejects 30 (Error ''TypeError'' ''Load failed'')))
     (statusRequest ex_world ''pay_1'') maxRetries
     = (Inl (Error ''TypeError'' ''Load failed''),
        [Attempt 30, Delay 1000, Attempt 30, Delay 2000, Attempt 30, Delay 3000, Attempt 30]) \<and>
   fetchWithRetry (ex_env (Rejects 30 NonError)) (statusRequest ex_world ''pay_1'') maxRetries
     = (Inl NonError,
        [Attempt 30, Delay 1000, Attempt 30, Delay 2000, Attempt 30, Delay 3000, Attempt 30])"
  by (simp add: fetchWithRetry_def fetchWithRetry_loop.simps maxRetries_def retryDelay_def
      ex_env_simps)

section \<open>What the operations change\<close>

lemma updatePaymentStatus_throws:
  "statusCallbacks w paymentId = Some (Callback k f) \<Longrightarrow> f s = Some e \<Longrightarrow>
   updatePaymentStatus w paymentId s = (Inl e, w\<lparr>effects := effects w @ [Invoked k s]\<rparr>)"
  by (simp add: updatePaymentStatus_def)

lemma updatePaymentStatus_returns:
  "listener_returns w paymentId s \<Longrightarrow>
   updatePaymentStatus w paymentId s =
     (Inr (),
      w\<lparr>heap := (case payments w paymentId of
                   None \<Rightarrow> heap w
                 | Some a \<Rightarrow> (heap w)(a := map_option (\<lambda>p. p\<lparr>status := s\<rparr>) (heap w a))),
        effects := effects w
          @ (case statusCallbacks w paymentId of None \<Rightarrow> [] | Some (Callback k f) \<Rightarrow> [Invoked k s])
          @ (if hasWindow w then [Dispatched paymentId s] else [])\<rparr>)"
  by (auto simp: updatePaymentStatus_def listener_returns_def payments_set_def assign_status_def
      Let_def map_upd_triv split: option.splits callback.splits)

lemma listener_throws:
  "\<not> listener_returns w paymentId s \<Longrightarrow>
   \<exists>k f e. statusCallbacks w paymentId = Some (Callback k f) \<and> f s = Some e"
  by (auto simp: listener_returns_def split: option.splits callback.splits)

lemma updatePaymentStatus_shape:
  "\<exists>H E. snd (updatePaymentStatus w paymentId s) = w\<lparr>heap := H, effects := E\<rparr>"
proof (cases "listener_returns w paymentId s")
  case True
  show ?thesis
    unfolding updatePaymentStatus_returns[OF True] by (simp; blast)
next
  case False
  from listener_throws[OF this] obtain k f e
    where "statusCallbacks w paymentId = Some (Callback k f)" "f s = Some e"
    by blast
  then show ?thesis
    by (intro exI[of _ "heap w"] exI[of _ "effects w @ [Invoked k s]"])
       (simp add: updatePaymentStatus_throws)
qed

lemma updatePaymentStatus_fields [simp]:
  "timers (snd (updatePaymentStatus w paymentId s)) = timers w"
  "nextHandle (snd (updatePaymentStatus w paymentId s)) = nextHandle w"
  "running (snd (updatePaymentStatus w paymentId s)) = running w"
  "payments (snd (updatePaymentStatus w paymentId s)) = payments w"
  "nextRef (snd (updatePaymentStatus w paymentId s)) = nextRef w"
  "statusCallbacks (snd (updatePaymentStatus w paymentId s)) = statusCallbacks w"
  using updatePaymentStatus_shape[of w paymentId s] by auto

lemma updatePaymentStatus_dom_heap [simp]:
  "dom (heap (snd (updatePaymentStatus w paymentId s))) = dom (heap w)"
proof (cases "listener_returns w paymentId s")
  case True
  show ?thesis
    unfolding updatePaymentStatus_returns[OF True] by (auto split: option.splits if_splits)
next
  case False
  from listener_throws[OF this] obtain k f e
    where "statusCallbacks w paymentId = Some (Callback k f)" "f s = Some e"
    by blast
  from updatePaymentStatus_throws[OF this] show ?thesis
    by simp
qed

lemma invocations_append: "invocations (xs @ ys) = invocations xs @ invocations ys"
  by (induction xs rule: invocations.induct) auto

lemma cached_after_update:
  "listener_returns w paymentId s \<Longrightarrow>
   cached (snd (updatePaymentStatus w paymentId s)) paymentId
     = map_option (\<lambda>p. p\<lparr>status := s\<rparr>) (cached w paymentId)"
  by (simp add: updatePaymentStatus_returns cached_def split: option.splits)

text \<open>
  \<open>createPayment_try\<close> and \<open>createPayment\<close> either fail and leave everything as it
  was, or allocate one object and store its reference under its id.
\<close>

lemma createPayment_try_cases:
  assumes "createPayment_try w env rq = (r, w')"
  shows "(isl r \<and> w' = w) \<or>
   (\<exists>p. r = Inr (nextRef w) \<and>
        w' = w\<lparr>payments := (payments w)(id_payment p \<mapsto> nextRef w),
                heap := (heap w)(nextRef w \<mapsto> p), nextRef := Suc (nextRef w)\<rparr>)"
proof (cases r)
  case (Inl e)
  with assms show ?thesis
    by (auto simp: createPayment_try_def Let_def payments_set_def
        split: if_splits sum.splits option.splits)
next
  case (Inr a)
  with assms have "r = Inr (nextRef w) \<and>
        w' = w\<lparr>payments := (payments w)(id_payment (the (heap w' (nextRef w))) \<mapsto> nextRef w),
                heap := (heap w)(nextRef w \<mapsto> the (heap w' (nextRef w))),
                nextRef := Suc (nextRef w)\<rparr>"
    by (auto simp: createPayment_try_def Let_def payments_set_def
        split: if_splits sum.splits option.splits)
  then show ?thesis
    by blast
qed

lemma createPayment_cases:
  assumes "createPayment w env rq = (r, w')"
  shows "(isl r \<and> w' = w) \<or>
   (apiKey w \<noteq> [] \<and>
    (\<exists>p. r = Inr (nextRef w) \<and>
        w' = w\<lparr>payments := (payments w)(id_payment p \<mapsto> nextRef w),
                heap := (heap w)(nextRef w \<mapsto> p), nextRef := Suc (nextRef w)\<rparr>))"
proof -
  obtain r0 w0 where t: "createPayment_try w env rq = (r0, w0)"
    by (cases "createPayment_try w env rq")
  from createPayment_try_cases[OF t] assms t show ?thesis
    by (auto simp: createPayment_def split: if_splits sum.splits thrown.splits)
qed

lemma createPayment_fields [simp]:
  "timers (snd (createPayment w env rq)) = timers w"
  "nextHandle (snd (createPayment w env rq)) = nextHandle w"
  "running (snd (createPayment w env rq)) = running w"
  using createPayment_cases[of w env rq "fst (createPayment w env rq)" "snd (createPayment w env rq)"]
  by auto

text \<open>
  With a credential, \<open>getPaymentStatus\<close> returns what the map holds for the id, and
  changes nothing or the status of that one object.
\<close>

lemma getPaymentStatus_cases:
  "apiKey w \<noteq> [] \<Longrightarrow>
   getPaymentStatus w env paymentId = (Inr (payments w paymentId), w) \<or>
   (\<exists>a s. payments w paymentId = Some a \<and>
      getPaymentStatus w env paymentId =
        (Inr (Some a), w\<lparr>heap := (heap w)(a := map_option (\<lambda>p. p\<lparr>status := s\<rparr>) (heap w a))\<rparr>))"
  by (auto simp: getPaymentStatus_def payments_set_def assign_status_def map_upd_triv
      split: sum.splits option.splits)

lemma getPaymentStatus_shape:
  "\<exists>H. snd (getPaymentStatus w env paymentId) = w\<lparr>heap := H\<rparr>"
proof (cases "apiKey w = []")
  case True
  then show ?thesis
    by (auto simp: getPaymentStatus_def intro: exI[of _ "heap w"])
next
  case False
  from getPaymentStatus_cases[OF False, of env paymentId] show ?thesis
    by (auto intro: exI[of _ "heap w"])
qed

lemma getPaymentStatus_fields [simp]:
  "timers (snd (getPaymentStatus w env paymentId)) = timers w"
  "nextHandle (snd (getPaymentStatus w env paymentId)) = nextHandle w"
  "running (snd (getPaymentStatus w env paymentId)) = running w"
  "now (snd (getPaymentStatus w env paymentId)) = now w"
  "payments (snd (getPaymentStatus w env paymentId)) = payments w"
  "nextRef (snd (getPaymentStatus w env paymentId)) = nextRef w"
  using getPaymentStatus_shape[of w env paymentId] by auto

lemma getPaymentStatus_dom_heap [simp]:
  "dom (heap (snd (getPaymentStatus w env paymentId))) = dom (heap w)"
proof (cases "apiKey w = []")
  case True
  then show ?thesis
    by (simp add: getPaymentStatus_def)
next
  case False
  from getPaymentStatus_cases[OF False, of env paymentId] show ?thesis
    by (auto split: if_splits)
qed

section \<open>The sample runs\<close>

lemma fetchWithRetry_first:
  "attempt (gateway env rq 0) = (d, Inr r) \<Longrightarrow>
   fetchWithRetry env rq maxRetries = (Inr r, [Attempt d])"
  by (simp add: fetchWithRetry_def fetchWithRetry_loop.simps)

lemma ex_fetch:
  "t < 15000 \<Longrightarrow> fetchWithRetry (ex_env (Responds t r)) rq maxRetries = (Inr r, [Attempt t])"
  by (rule fetchWithRetry_first) (simp add: ex_env_simps)

lemma ex_world_paying_eq:
  "ex_world_paying =
     ex_world\<lparr>payments := [''pay_1'' \<mapsto> 0], heap := [0 \<mapsto> ex_record ''pay_1''], nextRef := 1\<rparr>"
  by (simp add: ex_world_paying_def createPayment_def createPayment_try_def ex_fetch
      ex_world_def AmploPayService_new_def ex_response_def ok_def ex_payload_def
      generateQRCodeImage_def ex_env_simps payments_set_def ex_request_def ex_record_def)


lemma ex_create:
  "createPayment ex_world (ex_env (Responds 120 (ex_response 201 ''pay_1'' ''pending''))) ex_request
     = (Inr 0, ex_world_paying)"
  by (simp add: ex_world_paying_eq, simp add: createPayment_def createPayment_try_def ex_fetch
      ex_world_def AmploPayService_new_def ex_response_def ok_def ex_payload_def
      generateQRCodeImage_def ex_env_simps payments_set_def ex_request_def ex_record_def)

lemma ex_cached_paying: "cached ex_world_paying ''pay_1'' = Some (ex_record ''pay_1'')"
  by (simp add: ex_world_paying_eq cached_def)

section \<open>Creating and querying\<close>

text \<open>
  C3. A call of \<open>createPayment\<close> that fails, for whatever reason and whatever the
  gateway did (no credential, a status outside 200..299 such as 401, 403 or 503, a
  timeout or transport failure after the retries, an unreadable body, a failing QR
  encoder), leaves the whole state as it was before the call: the map of payments is
  the same and so is the record cached under every id.
\<close>

theorem createPayment_failure_atomic:
  assumes "createPayment w env rq = (Inl e, w')"
  shows "w' = w \<and> payments w' = payments w \<and> (\<forall>i. cached w' i = cached w i)"
  using createPayment_cases[OF assms] by auto

theorem createPayment_failure_atomic_witness:
  "createPayment ex_world_paying (ex_env (Responds 90 (ex_response 401 ''pay_2'' ''pending'')))
     ex_request
     = (Inl (Error ''Error'' msg_invalid_key),
        ex_world_paying) \<and>
   cached ex_world_paying ''pay_1'' = Some (ex_record ''pay_1'') \<and>
   cached ex_world_paying ''pay_2'' = None"
proof -
  have "fst (createPayment ex_world_paying
          (ex_env (Responds 90 (ex_response 401 ''pay_2'' ''pending''))) ex_request)
        = Inl (Error ''Error'' msg_invalid_key)"
    by (simp add: ex_world_paying_eq createPayment_def createPayment_try_def ex_fetch
        ex_world_def AmploPayService_new_def ex_response_def ok_def notOk_def)
  then obtain w' where h: "createPayment ex_world_paying
          (ex_env (Responds 90 (ex_response 401 ''pay_2'' ''pending''))) ex_request
        = (Inl (Error ''Error'' msg_invalid_key), w')"
    by (metis prod.collapse)
  from createPayment_failure_atomic[OF h] have "w' = ex_world_paying"
    by simp
  with h show ?thesis
    by (simp add: ex_cached_paying) (simp add: ex_world_paying_eq cached_def)
qed

text \<open>
  C2, as the code has it. With a credential configured, \<open>getPaymentStatus\<close> never
  throws, and whenever the query itself fails (the retry loop throws, the gateway
  answers outside 200..299, or the body cannot be read) it returns what the cache holds
  for the id, a reference to the last cached record or nothing, and leaves the state
  alone. Without a credential it throws the configuration error: that guard stands
  before the \<^verbatim>\<open>try\<close> block.
\<close>

theorem getPaymentStatus_degrades:
  "(apiKey w \<noteq> [] \<longrightarrow>
      (\<exists>r. fst (getPaymentStatus w env paymentId) = Inr r) \<and>
      (query_failed w env paymentId \<longrightarrow>
         getPaymentStatus w env paymentId = (Inr (payments w paymentId), w))) \<and>
   (apiKey w = [] \<longrightarrow>
      getPaymentStatus w env paymentId = (Inl (Error ''Error'' msg_no_key_query), w))"
proof (intro conjI impI)
  assume k: "apiKey w \<noteq> []"
  from getPaymentStatus_cases[OF k, of env paymentId]
  show "\<exists>r. fst (getPaymentStatus w env paymentId) = Inr r"
    by auto
next
  assume "apiKey w \<noteq> []" "query_failed w env paymentId"
  then show "getPaymentStatus w env paymentId = (Inr (payments w paymentId), w)"
    by (auto simp: getPaymentStatus_def query_failed_def split: sum.splits)
next
  assume "apiKey w = []"
  then show "getPaymentStatus w env paymentId = (Inl (Error ''Error'' msg_no_key_query), w)"
    by (simp add: getPaymentStatus_def)
qed

theorem getPaymentStatus_degrades_witness:
  "apiKey ex_world_paying = ''sk_test'' \<and>
   query_failed ex_world_paying (ex_env (Responds 80 (ex_response 503 ''pay_1'' ''paid''))) ''pay_1'' \<and>
   getPaymentStatus ex_world_paying (ex_env (Responds 80 (ex_response 503 ''pay_1'' ''paid''))) ''pay_1''
     = (Inr (Some 0), ex_world_paying) \<and>
   apiKey ex_world_no_key = [] \<and>
   getPaymentStatus ex_world_no_key (ex_env (Responds 80 (ex_response 200 ''pay_1'' ''paid''))) ''pay_1''
     = (Inl (Error ''Error'' msg_no_key_query), ex_world_no_key)"
proof -
  have k: "apiKey ex_world_paying = ''sk_test''"
    by (simp add: ex_world_paying_eq ex_world_def AmploPayService_new_def)
  have q: "query_failed ex_world_paying
             (ex_env (Responds 80 (ex_response 503 ''pay_1'' ''paid''))) ''pay_1''"
    by (simp add: query_failed_def ex_fetch ex_response_def ok_def)
  have p: "payments ex_world_paying ''pay_1'' = Some 0"
    by (simp add: ex_world_paying_eq)
  have n: "apiKey ex_world_no_key = []"
    by (simp add: ex_world_no_key_def AmploPayService_new_def)
  from getPaymentStatus_degrades[of ex_world_paying
         "ex_env (Responds 80 (ex_response 503 ''pay_1'' ''paid''))" "''pay_1''"]
       getPaymentStatus_degrades[of ex_world_no_key
         "ex_env (Responds 80 (ex_response 200 ''pay_1'' ''paid''))" "''pay_1''"]
       k q p n
  show ?thesis
    by simp
qed

theorem getPaymentStatus_degrades_counterexample:
  "fst (getPaymentStatus ex_world_no_key (ex_env Hangs) ''pay_1'')
     = Inl (Error ''Error'' msg_no_key_query)"
  by (simp add: getPaymentStatus_def ex_world_no_key_def AmploPayService_new_def)

text \<open>
  C7. When \<open>createPayment\<close> succeeds, the reference it returns points to a record that
  is cached under its own id, and a call of \<open>getPaymentStatus\<close> with that id on the
  resulting state, whatever the gateway does, returns the same reference and leaves
  under that id the created record with at most its status changed: id, amount,
  description, tickets, Pix code, QR image and both dates are the created ones.
\<close>

theorem createPayment_roundtrip:
  assumes "createPayment w env rq = (Inr a, w1)"
  shows "\<exists>p. heap w1 a = Some p \<and> cached w1 (id_payment p) = Some p \<and>
           (\<forall>env'. \<exists>s w2.
              getPaymentStatus w1 env' (id_payment p) = (Inr (Some a), w2) \<and>
              heap w2 a = Some (p\<lparr>status := s\<rparr>) \<and>
              cached w2 (id_payment p) = Some (p\<lparr>status := s\<rparr>))"
proof -
  from createPayment_cases[OF assms] obtain p where
    k: "apiKey w \<noteq> []" and a: "a = nextRef w" and
    w1: "w1 = w\<lparr>payments := (payments w)(id_payment p \<mapsto> nextRef w),
                heap := (heap w)(nextRef w \<mapsto> p), nextRef := Suc (nextRef w)\<rparr>"
    by auto
  have h: "heap w1 a = Some p" and py: "payments w1 (id_payment p) = Some a"
    and k1: "apiKey w1 \<noteq> []"
    using k by (simp_all add: w1 a)
  have "\<exists>s w2. getPaymentStatus w1 env' (id_payment p) = (Inr (Some a), w2) \<and>
              heap w2 a = Some (p\<lparr>status := s\<rparr>) \<and>
              cached w2 (id_payment p) = Some (p\<lparr>status := s\<rparr>)" for env'
  proof -
    from getPaymentStatus_cases[OF k1, of env' "id_payment p"]
    consider "getPaymentStatus w1 env' (id_payment p) = (Inr (Some a), w1)"
      | s where "getPaymentStatus w1 env' (id_payment p) =
        (Inr (Some a), w1\<lparr>heap := (heap w1)(a := map_option (\<lambda>p. p\<lparr>status := s\<rparr>) (heap w1 a))\<rparr>)"
      using py by auto
    then show ?thesis
    proof cases
      case 1
      have "heap w1 a = Some (p\<lparr>status := status p\<rparr>)"
        "cached w1 (id_payment p) = Some (p\<lparr>status := status p\<rparr>)"
        using h py by (simp_all add: cached_def)
      with 1 show ?thesis
        by blast
    next
      case (2 s)
      let ?w2 = "w1\<lparr>heap := (heap w1)(a := map_option (\<lambda>p. p\<lparr>status := s\<rparr>) (heap w1 a))\<rparr>"
      have "heap ?w2 a = Some (p\<lparr>status := s\<rparr>)"
        "cached ?w2 (id_payment p) = Some (p\<lparr>status := s\<rparr>)"
        using h py by (simp_all add: cached_def)
      with 2 show ?thesis
        by blast
    qed
  qed
  with h py show ?thesis
    by (auto simp: cached_def)
qed

theorem createPayment_roundtrip_witness:
  "createPayment ex_world (ex_env (Responds 120 (ex_response 201 ''pay_1'' ''pending''))) ex_request
     = (Inr 0, ex_world_paying) \<and>
   heap ex_world_paying 0 = Some (ex_record ''pay_1'') \<and>
   fst (getPaymentStatus ex_world_paying
          (ex_env (Responds 70 (ex_response 200 ''pay_1'' ''paid''))) ''pay_1'') = Inr (Some 0) \<and>
   cached (snd (getPaymentStatus ex_world_paying
          (ex_env (Responds 70 (ex_response 200 ''pay_1'' ''paid''))) ''pay_1'')) ''pay_1''
     = Some ((ex_record ''pay_1'')\<lparr>status := ''paid''\<rparr>)"
proof -
  have q: "getPaymentStatus ex_world_paying
          (ex_env (Responds 70 (ex_response 200 ''pay_1'' ''paid''))) ''pay_1''
       = (Inr (Some 0), ex_world_paying\<lparr>heap := [0 \<mapsto> (ex_record ''pay_1'')\<lparr>status := ''paid''\<rparr>]\<rparr>)"
    by (simp add: getPaymentStatus_def ex_fetch ex_response_def ok_def ex_payload_def
        payments_set_def assign_status_def)
       (simp add: ex_world_paying_eq ex_world_def AmploPayService_new_def payments_set_def
          assign_status_def)
  have c: "cached (ex_world_paying\<lparr>heap := [0 \<mapsto> (ex_record ''pay_1'')\<lparr>status := ''paid''\<rparr>]\<rparr>) ''pay_1''
            = Some ((ex_record ''pay_1'')\<lparr>status := ''paid''\<rparr>)"
    by (simp add: cached_def ex_world_paying_eq)
  have h: "heap ex_world_paying 0 = Some (ex_record ''pay_1'')"
    by (simp add: ex_world_paying_eq)
  from createPayment_roundtrip[OF ex_create] q c h ex_create show ?thesis
    by simp
qed

section \<open>Invariants of the page\<close>

lemma pollTick_cases:
  "pollTick w env paymentId h = snd (getPaymentStatus w env paymentId) \<or>
   (\<exists>s. pollTick w env paymentId h =
      snd (updatePaymentStatus (clearInterval h (snd (getPaymentStatus w env paymentId))) paymentId s))"
  by (auto simp: pollTick_def split: prod.splits sum.splits option.splits)

lemma pollTick_fields:
  "nextHandle (pollTick w env paymentId h) = nextHandle w"
  "running (pollTick w env paymentId h) = running w"
  "timers (pollTick w env paymentId h) = timers w \<or>
   timers (pollTick w env paymentId h) = (timers w)(h := None)"
  using pollTick_cases[of w env paymentId h] by (auto simp: clearInterval_def)

lemma pollTick_refs:
  "payments (pollTick w env paymentId h) = payments w"
  "nextRef (pollTick w env paymentId h) = nextRef w"
  "dom (heap (pollTick w env paymentId h)) = dom (heap w)"
  using pollTick_cases[of w env paymentId h]
  by (elim disjE exE; simp add: clearInterval_def)+

lemma runAction_refs:
  "payments (runAction act w) = payments w"
  "nextRef (runAction act w) = nextRef w"
  "dom (heap (runAction act w)) = dom (heap w)"
  by (cases act; simp add: clearInterval_def)+

lemma fire_refs:
  "payments (fire h w) = payments w"
  "nextRef (fire h w) = nextRef w"
  "dom (heap (fire h w)) = dom (heap w)"
  by (auto simp: fire_def runAction_refs split: option.splits)

lemma finish_refs:
  "payments (finish n env w) = payments w"
  "nextRef (finish n env w) = nextRef w"
  "dom (heap (finish n env w)) = dom (heap w)"
  by (auto simp: finish_def pollTick_refs split: prod.splits)

text \<open>References: the state of a new service is well formed, and every event keeps it so.\<close>

lemma wf_refs_same:
  assumes wf: "wf_refs w" and p: "payments w' = payments w" and n: "nextRef w' = nextRef w"
    and d: "dom (heap w') = dom (heap w)"
  shows "wf_refs w'"
proof -
  have "a < nextRef w'" if "heap w' a = Some q" for a q
  proof -
    from that have "a \<in> dom (heap w)"
      using d by auto
    then obtain q' where "heap w a = Some q'"
      by auto
    with wf n show ?thesis
      by (auto simp: wf_refs_def)
  qed
  with wf p n show ?thesis
    by (auto simp: wf_refs_def)
qed

lemma wf_refs_createPayment: "wf_refs w \<Longrightarrow> wf_refs (snd (createPayment w env rq))"
proof -
  assume wf: "wf_refs w"
  from createPayment_cases[of w env rq "fst (createPayment w env rq)" "snd (createPayment w env rq)"]
  consider "snd (createPayment w env rq) = w"
    | p where "snd (createPayment w env rq) =
        w\<lparr>payments := (payments w)(id_payment p \<mapsto> nextRef w),
          heap := (heap w)(nextRef w \<mapsto> p), nextRef := Suc (nextRef w)\<rparr>"
    by auto
  then show ?thesis
  proof cases
    case 1
    with wf show ?thesis
      by simp
  next
    case (2 p)
    show ?thesis
      unfolding 2 using wf
      by (fastforce simp: wf_refs_def less_Suc_eq split: if_splits)
  qed
qed

lemma wf_refs_exec: "wf_refs w \<Longrightarrow> wf_refs (exec e w)"
proof (cases e)
  case (Elapse d)
  assume "wf_refs w" then show ?thesis
    using Elapse by (simp add: wf_refs_def)
next
  case (Fire k)
  assume "wf_refs w" then show ?thesis
    using Fire by (simp add: wf_refs_same[where w = w] fire_refs)
next
  case (Finish n env)
  assume "wf_refs w" then show ?thesis
    using Finish by (simp add: wf_refs_same[where w = w] finish_refs)
next
  case (Create env rq)
  assume "wf_refs w" then show ?thesis
    using Create by (simp add: wf_refs_createPayment)
next
  case (Query env i)
  assume "wf_refs w" then show ?thesis
    using Query by (simp add: wf_refs_same[where w = w])
next
  case (Subscribe i cb)
  assume "wf_refs w" then show ?thesis
    using Subscribe by (simp add: wf_refs_def onStatusUpdate_def)
next
  case (Update i s)
  assume "wf_refs w" then show ?thesis
    using Update by (simp add: wf_refs_same[where w = w])
next
  case (Webhook i s)
  assume "wf_refs w" then show ?thesis
    using Webhook by (simp add: wf_refs_same[where w = w] processWebhook_def)
next
  case (StartPolling i ms)
  assume "wf_refs w" then show ?thesis
    using StartPolling by (simp add: wf_refs_def startPaymentPolling_def Let_def)
qed

lemma wf_refs_run: "wf_refs w \<Longrightarrow> wf_refs (run es w)"
  by (induction es arbitrary: w) (auto intro: wf_refs_exec)


text \<open>Timer handles: likewise.\<close>

lemma wf_timers_same:
  "wf_timers w \<Longrightarrow> nextHandle w' = nextHandle w \<Longrightarrow> running w' = running w \<Longrightarrow>
   timers w' = timers w \<or> timers w' = (timers w)(k := None) \<Longrightarrow> wf_timers w'"
  by (fastforce simp: wf_timers_def split: if_splits)

lemma wf_timers_exec: "wf_timers w \<Longrightarrow> wf_timers (exec e w)"
proof (cases e)
  case (Elapse d)
  assume "wf_timers w" then show ?thesis
    using Elapse by (simp add: wf_timers_def)
next
  case (Fire k)
  assume wf: "wf_timers w"
  show ?thesis
  proof (cases "timers w k")
    case None
    with wf Fire show ?thesis
      by (simp add: fire_def)
  next
    case (Some t)
    show ?thesis
    proof (cases "now w < due t")
      case True
      with wf Fire Some show ?thesis
        by (simp add: fire_def)
    next
      case False
      define w' where "w' = (case period t of
                    None \<Rightarrow> w\<lparr>timers := (timers w)(k := None)\<rparr>
                  | Some p \<Rightarrow> w\<lparr>timers := (timers w)(k \<mapsto> t\<lparr>due := due t + p\<rparr>)\<rparr>)"
      have f: "exec e w = runAction (action t) w'"
        using Fire Some False by (simp add: fire_def w'_def)
      have tg: "\<forall>k'. target (action t) = Some k' \<longrightarrow> k' < nextHandle w"
        using wf Some by (auto simp: wf_timers_def)
      have wf': "wf_timers w'"
        using wf Some unfolding w'_def wf_timers_def
        by (auto split: option.splits)
      have nh: "nextHandle w' = nextHandle w"
        by (simp add: w'_def split: option.splits)
      show ?thesis
      proof (cases "action t")
        case (PollTick i k')
        with tg nh have "k' < nextHandle w'"
          by simp
        with wf' PollTick f show ?thesis
          by (auto simp: wf_timers_def)
      next
        case (ClearPoll k')
        with wf' f show ?thesis
          by (auto intro: wf_timers_same[where k = k'] simp: clearInterval_def)
      next
        case (AutoApprove i)
        with wf' f show ?thesis
          by (auto intro: wf_timers_same)
      qed
    qed
  qed
next
  case (Finish n env)
  assume wf: "wf_timers w"
  show ?thesis
  proof (cases "n < length (running w)")
    case False
    with wf Finish show ?thesis
      by (simp add: finish_def)
  next
    case True
    obtain i k where ik: "running w ! n = (i, k)"
      by (cases "running w ! n")
    define w' where "w' = w\<lparr>running := take n (running w) @ drop (Suc n) (running w)\<rparr>"
    have wf': "wf_timers w'"
      using wf by (fastforce simp: wf_timers_def w'_def dest: in_set_takeD in_set_dropD)
    have e: "exec e w = pollTick w' env i k"
      using Finish True ik by (simp add: finish_def w'_def)
    show ?thesis
      unfolding e by (rule wf_timers_same[OF wf' pollTick_fields])
  qed
next
  case (Create env rq)
  assume "wf_timers w" then show ?thesis
    using Create by (auto intro: wf_timers_same)
next
  case (Query env i)
  assume "wf_timers w" then show ?thesis
    using Query by (auto intro: wf_timers_same)
next
  case (Subscribe i cb)
  assume "wf_timers w" then show ?thesis
    using Subscribe by (simp add: wf_timers_def onStatusUpdate_def)
next
  case (Update i s)
  assume "wf_timers w" then show ?thesis
    using Update by (auto intro: wf_timers_same)
next
  case (Webhook i s)
  assume "wf_timers w" then show ?thesis
    using Webhook by (auto intro: wf_timers_same simp: processWebhook_def)
next
  case (StartPolling i ms)
  assume "wf_timers w" then show ?thesis
    using StartPolling
    by (fastforce simp: wf_timers_def startPaymentPolling_def Let_def less_Suc_eq split: if_splits)
qed

lemma wf_timers_run: "wf_timers w \<Longrightarrow> wf_timers (run es w)"
  by (induction es arbitrary: w) (auto intro: wf_timers_exec)








section \<open>Status updates\<close>

lemma ex_world_listening_eq:
  "ex_world_listening = ex_world_paying\<lparr>statusCallbacks := [''pay_1'' \<mapsto> ex_listener]\<rparr>"
  by (simp add: ex_world_listening_def onStatusUpdate_def ex_world_paying_eq ex_world_def
      AmploPayService_new_def)

lemma ex_world_throwing_eq:
  "ex_world_throwing = ex_world_paying\<lparr>statusCallbacks := [''pay_1'' \<mapsto> ex_throwing_listener]\<rparr>"
  by (simp add: ex_world_throwing_def onStatusUpdate_def ex_world_paying_eq ex_world_def
      AmploPayService_new_def)

lemma ex_update_throws:
  "updatePaymentStatus ex_world_throwing ''pay_1'' s
     = (Inl ex_thrown, ex_world_throwing\<lparr>effects := effects ex_world_throwing @ [Invoked 2 s]\<rparr>)"
  by (rule updatePaymentStatus_throws[where f = "\<lambda>s. Some ex_thrown"])
     (simp_all add: ex_world_throwing_eq ex_throwing_listener_def)

lemma ex_cached_throwing: "cached ex_world_throwing ''pay_1'' = Some (ex_record ''pay_1'')"
  by (simp add: ex_world_throwing_eq ex_world_paying_eq cached_def)

text \<open>
  C9, as the code has it. Provided the listener registered for the id, if there is
  one, returns when called with \<open>s\<close>, \<open>updatePaymentStatus\<close> completes without error for
  every id and every string \<open>s\<close>, whether or not a record is cached and whether or not
  a listener is registered; a record cached under the id then has exactly \<open>s\<close> as its
  status and is otherwise as before (so the status can be a string outside the four of
  the type), and where no record is cached none appears.
\<close>

theorem updatePaymentStatus_unvalidated:
  assumes "listener_returns w paymentId s"
  shows "fst (updatePaymentStatus w paymentId s) = Inr () \<and>
         cached (snd (updatePaymentStatus w paymentId s)) paymentId
           = map_option (\<lambda>p. p\<lparr>status := s\<rparr>) (cached w paymentId)"
  using assms by (simp add: cached_after_update) (simp add: updatePaymentStatus_returns)

theorem updatePaymentStatus_unvalidated_witness:
  "listener_returns ex_world_paying ''pay_1'' ''refunded'' \<and>
   listener_returns ex_world_paying ''pay_9'' ''refunded'' \<and>
   fst (updatePaymentStatus ex_world_paying ''pay_1'' ''refunded'') = Inr () \<and>
   cached (snd (updatePaymentStatus ex_world_paying ''pay_1'' ''refunded'')) ''pay_1''
     = Some ((ex_record ''pay_1'')\<lparr>status := ''refunded''\<rparr>) \<and>
   fst (updatePaymentStatus ex_world_paying ''pay_9'' ''refunded'') = Inr () \<and>
   cached (snd (updatePaymentStatus ex_world_paying ''pay_9'' ''refunded'')) ''pay_9'' = None"
proof -
  have l1: "listener_returns ex_world_paying ''pay_1'' ''refunded''"
    and l9: "listener_returns ex_world_paying ''pay_9'' ''refunded''"
    by (simp_all add: listener_returns_def ex_world_paying_eq ex_world_def AmploPayService_new_def)
  have c9: "cached ex_world_paying ''pay_9'' = None"
    by (simp add: ex_world_paying_eq cached_def)
  from updatePaymentStatus_unvalidated[OF l1] updatePaymentStatus_unvalidated[OF l9]
       l1 l9 c9 ex_cached_paying
  show ?thesis
    by simp
qed

theorem updatePaymentStatus_unvalidated_counterexample:
  "fst (updatePaymentStatus ex_world_throwing ''pay_1'' ''refunded'') = Inl ex_thrown \<and>
   cached ex_world_throwing ''pay_1'' = Some (ex_record ''pay_1'') \<and>
   cached (snd (updatePaymentStatus ex_world_throwing ''pay_1'' ''refunded'')) ''pay_1''
     = Some (ex_record ''pay_1'') \<and>
   status (ex_record ''pay_1'') = ''pending''"
  by (simp add: ex_update_throws ex_cached_throwing)
     (simp add: cached_def ex_world_throwing_eq ex_world_paying_eq ex_record_def)

text \<open>
  C5, as the code has it. Provided the listener registered for the id, if there is
  one, returns when called with \<open>s\<close>: two calls of \<open>updatePaymentStatus\<close> with the same
  id and \<open>s\<close> both complete without error; a record cached under the id has status \<open>s\<close>
  after the first call and after the second; the second call leaves map and objects
  exactly as the first left them; the listener is called once by each call, twice in
  all; and \<open>processWebhook\<close> does what \<open>updatePaymentStatus\<close> does, so a webhook delivery
  followed by the update of a poll tick is such a pair of calls.
\<close>

theorem updatePaymentStatus_twice:
  assumes "listener_returns w paymentId s"
  shows "case updatePaymentStatus w paymentId s of (r1, w1) \<Rightarrow>
         case updatePaymentStatus w1 paymentId s of (r2, w2) \<Rightarrow>
           r1 = Inr () \<and> r2 = Inr () \<and>
           cached w1 paymentId = map_option (\<lambda>p. p\<lparr>status := s\<rparr>) (cached w paymentId) \<and>
           cached w2 paymentId = map_option (\<lambda>p. p\<lparr>status := s\<rparr>) (cached w paymentId) \<and>
           payments w2 = payments w1 \<and> heap w2 = heap w1 \<and>
           (case statusCallbacks w paymentId of
              None \<Rightarrow> invocations (effects w1) = invocations (effects w) \<and>
                      invocations (effects w2) = invocations (effects w)
            | Some (Callback k f) \<Rightarrow>
                invocations (effects w1) = invocations (effects w) @ [(k, s)] \<and>
                invocations (effects w2) = invocations (effects w) @ [(k, s), (k, s)]) \<and>
           processWebhook w paymentId s eventData = (r1, w1) \<and>
           processWebhook w1 paymentId s eventData = (r2, w2)"
proof -
  note first = updatePaymentStatus_returns[OF assms]
  obtain w1 where 1: "updatePaymentStatus w paymentId s = (Inr (), w1)"
    using first by simp
  have cb: "statusCallbacks w1 paymentId = statusCallbacks w paymentId"
    and py: "payments w1 = payments w"
    using 1 first by auto
  have l1: "listener_returns w1 paymentId s"
    using assms cb by (simp add: listener_returns_def)
  note second = updatePaymentStatus_returns[OF l1]
  obtain w2 where 2: "updatePaymentStatus w1 paymentId s = (Inr (), w2)"
    using second by simp
  have c1: "cached w1 paymentId = map_option (\<lambda>p. p\<lparr>status := s\<rparr>) (cached w paymentId)"
    using cached_after_update[OF assms] 1 by simp
  have c2: "cached w2 paymentId = map_option (\<lambda>p. p\<lparr>status := s\<rparr>) (cached w1 paymentId)"
    using cached_after_update[OF l1] 2 by simp
  have hw1: "heap w1 = (case payments w paymentId of
                   None \<Rightarrow> heap w
                 | Some a \<Rightarrow> (heap w)(a := map_option (\<lambda>p. p\<lparr>status := s\<rparr>) (heap w a)))"
    using 1 first by auto
  have hw2: "heap w2 = (case payments w paymentId of
                   None \<Rightarrow> heap w1
                 | Some a \<Rightarrow> (heap w1)(a := map_option (\<lambda>p. p\<lparr>status := s\<rparr>) (heap w1 a)))"
    using 2 second py by auto
  have h: "heap w2 = heap w1"
    unfolding hw2 unfolding hw1
    by (simp add: option.map_comp comp_def split: option.splits)
  have p: "payments w2 = payments w1"
    using 2 second by auto
  have ew1: "effects w1 = effects w
          @ (case statusCallbacks w paymentId of None \<Rightarrow> [] | Some (Callback k f) \<Rightarrow> [Invoked k s])
          @ (if hasWindow w then [Dispatched paymentId s] else [])"
    using 1 first by auto
  have ew2: "effects w2 = effects w1
          @ (case statusCallbacks w paymentId of None \<Rightarrow> [] | Some (Callback k f) \<Rightarrow> [Invoked k s])
          @ (if hasWindow w1 then [Dispatched paymentId s] else [])"
    using 2 second cb by auto
  have i1: "case statusCallbacks w paymentId of
              None \<Rightarrow> invocations (effects w1) = invocations (effects w)
            | Some (Callback k f) \<Rightarrow> invocations (effects w1) = invocations (effects w) @ [(k, s)]"
    unfolding ew1 by (simp add: invocations_append split: option.splits callback.splits)
  have i2: "case statusCallbacks w paymentId of
              None \<Rightarrow> invocations (effects w2) = invocations (effects w1)
            | Some (Callback k f) \<Rightarrow> invocations (effects w2) = invocations (effects w1) @ [(k, s)]"
    unfolding ew2 by (simp add: invocations_append split: option.splits callback.splits)
  show ?thesis
    using 1 2 c1 c2 h p i1 i2
    by (auto simp: processWebhook_def option.map_comp comp_def split: option.splits callback.splits)
qed

theorem updatePaymentStatus_twice_witness:
  "listener_returns ex_world_listening ''pay_1'' ''paid'' \<and>
   cached (run [Webhook ''pay_1'' ''paid'', Update ''pay_1'' ''paid''] ex_world_listening) ''pay_1''
     = Some ((ex_record ''pay_1'')\<lparr>status := ''paid''\<rparr>) \<and>
   invocations (effects (run [Webhook ''pay_1'' ''paid'', Update ''pay_1'' ''paid''] ex_world_listening))
     = [(1, ''paid''), (1, ''paid'')]"
proof -
  have l: "listener_returns ex_world_listening ''pay_1'' ''paid''"
    by (simp add: listener_returns_def ex_world_listening_eq ex_listener_def)
  have c: "cached ex_world_listening ''pay_1'' = Some (ex_record ''pay_1'')"
    by (simp add: ex_world_listening_eq ex_world_paying_eq cached_def)
  have s: "statusCallbacks ex_world_listening ''pay_1'' = Some (Callback 1 (\<lambda>s. None))"
    and e: "effects ex_world_listening = []"
    by (simp_all add: ex_world_listening_eq ex_listener_def ex_world_paying_eq ex_world_def
        AmploPayService_new_def)
  from updatePaymentStatus_twice[OF l] l c s e show ?thesis
    by (auto simp: processWebhook_def split: prod.splits)
qed

theorem updatePaymentStatus_twice_counterexample:
  "fst (updatePaymentStatus ex_world_throwing ''pay_1'' ''paid'') = Inl ex_thrown \<and>
   fst (updatePaymentStatus (snd (updatePaymentStatus ex_world_throwing ''pay_1'' ''paid''))
          ''pay_1'' ''paid'') = Inl ex_thrown \<and>
   cached (run [Update ''pay_1'' ''paid'', Update ''pay_1'' ''paid''] ex_world_throwing) ''pay_1''
     = Some (ex_record ''pay_1'') \<and>
   status (ex_record ''pay_1'') = ''pending''"
proof -
  let ?w1 = "ex_world_throwing\<lparr>effects := effects ex_world_throwing @ [Invoked 2 ''paid'']\<rparr>"
  have 2: "updatePaymentStatus ?w1 ''pay_1'' ''paid''
             = (Inl ex_thrown, ?w1\<lparr>effects := effects ?w1 @ [Invoked 2 ''paid'']\<rparr>)"
    by (rule updatePaymentStatus_throws[where f = "\<lambda>s. Some ex_thrown"])
       (simp_all add: ex_world_throwing_eq ex_throwing_listener_def)
  have "cached (?w1\<lparr>effects := effects ?w1 @ [Invoked 2 ''paid'']\<rparr>) ''pay_1''
          = Some (ex_record ''pay_1'')"
    using ex_cached_throwing by (simp add: cached_def split: option.splits)
  then show ?thesis
    by (simp add: ex_update_throws 2) (simp add: ex_record_def)
qed

text \<open>
  C8. The registry holds one listener per id: \<open>onStatusUpdate\<close> puts the new listener
  in the place of whatever was registered for that id and leaves the other ids alone;
  and when a listener has been registered over an earlier one, the next
  \<open>updatePaymentStatus\<close> for the id calls the later listener, once, and no other.
\<close>

theorem onStatusUpdate_replaces:
  "statusCallbacks (onStatusUpdate w paymentId cb) paymentId = Some cb \<and>
   (\<forall>other. other \<noteq> paymentId \<longrightarrow>
      statusCallbacks (onStatusUpdate w paymentId cb) other = statusCallbacks w other) \<and>
   invocations (effects (snd (updatePaymentStatus
       (onStatusUpdate (onStatusUpdate w paymentId (Callback k0 f0)) paymentId (Callback k f))
       paymentId s)))
     = invocations (effects w) @ [(k, s)]"
  by (auto simp: onStatusUpdate_def updatePaymentStatus_def payments_set_def assign_status_def
      invocations_append Let_def split: option.splits)

theorem onStatusUpdate_replaces_witness:
  "statusCallbacks (onStatusUpdate (onStatusUpdate ex_world_paying ''pay_1'' ex_old_listener)
      ''pay_1'' ex_listener) ''pay_1'' = Some ex_listener \<and>
   statusCallbacks (onStatusUpdate (onStatusUpdate ex_world_paying ''pay_1'' ex_old_listener)
      ''pay_1'' ex_listener) ''pay_2'' = None \<and>
   invocations (effects (snd (updatePaymentStatus
       (onStatusUpdate (onStatusUpdate ex_world_paying ''pay_1'' ex_old_listener)
          ''pay_1'' ex_listener) ''pay_1'' ''paid'')))
     = [(1, ''paid'')]"
proof -
  have e: "effects ex_world_paying = []" "statusCallbacks ex_world_paying ''pay_2'' = None"
    by (simp_all add: ex_world_paying_eq ex_world_def AmploPayService_new_def)
  have n: "''pay_2'' \<noteq> ''pay_1''"
    by simp
  from onStatusUpdate_replaces[of "onStatusUpdate ex_world_paying ''pay_1'' ex_old_listener"
         "''pay_1''" ex_listener 0 "\<lambda>s. None" 0 "\<lambda>s. None" "''paid''"]
       onStatusUpdate_replaces[of ex_world_paying "''pay_1''" ex_old_listener
         0 "\<lambda>s. None" 1 "\<lambda>s. None" "''paid''"]
       e n
  show ?thesis
    by (simp add: ex_old_listener_def ex_listener_def)
qed



section \<open>Without a credential, and the simulated service\<close>

lemma generateMockPixCode_nonempty: "generateMockPixCode env \<noteq> []"
  by (simp add: generateMockPixCode_def)

text \<open>
  C1, as the code has it. Without a credential (\<open>apiKey\<close> empty, as the constructor
  leaves it when the environment has none) \<open>createPayment\<close> of the gateway client fails
  with the configuration error and changes nothing, and \<open>handleAdvance\<close>, which always
  asks the gateway client, ends in an alert with that message: the simulated service is
  not selected. The simulated service itself, when it is the one called and its call
  succeeds, returns a record that is cached under its id, has status \<open>pending\<close> and a
  Pix code that is not empty, and sets a one-shot timer due 10000 ms later. That timer
  does nothing before it is due; run after 10000 ms, with a listener registered for the
  id that returns when called with \<open>paid\<close>, it calls that listener once with \<open>paid\<close>,
  sets the cached status to \<open>paid\<close>, and is gone.
\<close>

theorem no_credential_no_simulation:
  "(apiKey w = [] \<longrightarrow>
      createPayment w env rq = (Inl (Error ''Error'' msg_no_key), w) \<and>
      (getTotalTickets tc > 0 \<longrightarrow> handleAdvance w env tc = (Alert msg_no_key HintApiKey, w))) \<and>
   apiKey (AmploPayService_new None env_url win orig t) = [] \<and>
   (mock_createPayment w env rq = (Inr a, w1) \<longrightarrow>
      (\<exists>p. heap w1 a = Some p \<and> cached w1 (id_payment p) = Some p \<and>
         status p = ''pending'' \<and> (\<exists>c. pixCode p = Some c \<and> c \<noteq> []) \<and>
         timers w1 (nextHandle w) =
           Some \<lparr>due = now w + 10000, period = None, action = AutoApprove (id_payment p)\<rparr> \<and>
         (\<forall>k f. f ''paid'' = None \<longrightarrow>
            fire (nextHandle w) (onStatusUpdate w1 (id_payment p) (Callback k f))
              = onStatusUpdate w1 (id_payment p) (Callback k f) \<and>
            (case fire (nextHandle w)
                    (exec (Elapse 10000) (onStatusUpdate w1 (id_payment p) (Callback k f))) of
               w3 \<Rightarrow> cached w3 (id_payment p) = Some (p\<lparr>status := ''paid''\<rparr>) \<and>
                     invocations (effects w3) = invocations (effects w1) @ [(k, ''paid'')] \<and>
                     timers w3 (nextHandle w) = None))))"
proof (intro conjI impI)
  assume "apiKey w = []"
  then show "createPayment w env rq = (Inl (Error ''Error'' msg_no_key), w)"
    by (simp add: createPayment_def)
next
  assume "apiKey w = []" "getTotalTickets tc > 0"
  then show "handleAdvance w env tc = (Alert msg_no_key HintApiKey, w)"
    by (simp add: handleAdvance_def createPixPayment_def createPayment_def msg_no_key_def)
next
  show "apiKey (AmploPayService_new None env_url win orig t) = []"
    by (simp add: AmploPayService_new_def)
next
  assume m: "mock_createPayment w env rq = (Inr a, w1)"
  define p where "p = \<lparr>id_payment = uuidv4 env, amount = req_amount rq,
                     description = req_description rq, tickets = req_tickets rq,
                     status = ''pending'', pixCode = Some (generateMockPixCode env),
                     qrCodeImage = Some (projr (generateQRCodeImage env (generateMockPixCode env))),
                     createdAt = Instant (wallClock env 1),
                     expiresAt = Some (Instant (plusMinutesLocal env (wallClock env 0) 15))\<rparr>"
  from m have a: "a = nextRef w"
    and w1: "w1 = w\<lparr>payments := (payments w)(uuidv4 env \<mapsto> nextRef w),
                  heap := (heap w)(nextRef w \<mapsto> p), nextRef := Suc (nextRef w),
                  timers := (timers w)(nextHandle w \<mapsto>
                     \<lparr>due = now w + 10000, period = None, action = AutoApprove (uuidv4 env)\<rparr>),
                  nextHandle := Suc (nextHandle w)\<rparr>"
    by (auto simp: mock_createPayment_def Let_def payments_set_def p_def split: sum.splits)
  have idp: "id_payment p = uuidv4 env"
    by (simp add: p_def)
  have h: "heap w1 a = Some p" and c: "cached w1 (id_payment p) = Some p"
    by (simp_all add: w1 a idp cached_def)
  have st: "status p = ''pending''"
    by (simp add: p_def)
  have px: "\<exists>c. pixCode p = Some c \<and> c \<noteq> []"
    by (simp add: p_def generateMockPixCode_nonempty)
  have tm: "timers w1 (nextHandle w) =
           Some \<lparr>due = now w + 10000, period = None, action = AutoApprove (id_payment p)\<rparr>"
    by (simp add: w1 idp)
  have fired: "fire (nextHandle w) (onStatusUpdate w1 (id_payment p) (Callback k f))
              = onStatusUpdate w1 (id_payment p) (Callback k f) \<and>
            (case fire (nextHandle w)
                    (exec (Elapse 10000) (onStatusUpdate w1 (id_payment p) (Callback k f))) of
               w3 \<Rightarrow> cached w3 (id_payment p) = Some (p\<lparr>status := ''paid''\<rparr>) \<and>
                     invocations (effects w3) = invocations (effects w1) @ [(k, ''paid'')] \<and>
                     timers w3 (nextHandle w) = None)"
    if f: "f ''paid'' = None" for k f
  proof -
    let ?w2 = "onStatusUpdate w1 (id_payment p) (Callback k f)"
    have t2: "timers ?w2 (nextHandle w) =
           Some \<lparr>due = now w + 10000, period = None, action = AutoApprove (id_payment p)\<rparr>"
      and n2: "now ?w2 = now w"
      using tm by (simp_all add: onStatusUpdate_def w1)
    have not_yet: "fire (nextHandle w) ?w2 = ?w2"
      by (simp add: fire_def t2 n2)
    let ?w2' = "(exec (Elapse 10000) ?w2)
                  \<lparr>timers := (timers (exec (Elapse 10000) ?w2))(nextHandle w := None)\<rparr>"
    have lr: "listener_returns ?w2' (id_payment p) ''paid''"
      using f by (simp add: listener_returns_def onStatusUpdate_def)
    have f3: "fire (nextHandle w) (exec (Elapse 10000) ?w2)
                = snd (updatePaymentStatus ?w2' (id_payment p) ''paid'')"
      using t2 n2 by (simp add: fire_def onStatusUpdate_def)
    have c2: "cached ?w2' (id_payment p) = Some p"
      using c by (simp add: cached_def onStatusUpdate_def split: option.splits)
    have e2: "effects ?w2' = effects w1" "hasWindow ?w2' = hasWindow w1"
      "statusCallbacks ?w2' (id_payment p) = Some (Callback k f)"
      by (simp_all add: onStatusUpdate_def)
    have "cached (snd (updatePaymentStatus ?w2' (id_payment p) ''paid'')) (id_payment p)
            = Some (p\<lparr>status := ''paid''\<rparr>)"
      using cached_after_update[OF lr] c2 by simp
    moreover have "invocations (effects (snd (updatePaymentStatus ?w2' (id_payment p) ''paid'')))
            = invocations (effects w1) @ [(k, ''paid'')]"
      unfolding updatePaymentStatus_returns[OF lr] using e2
      by (simp add: invocations_append)
    moreover have "timers (snd (updatePaymentStatus ?w2' (id_payment p) ''paid'')) (nextHandle w) = None"
      by simp
    ultimately show ?thesis
      using not_yet f3 by simp
  qed
  from h c st px tm fired
  show "\<exists>p. heap w1 a = Some p \<and> cached w1 (id_payment p) = Some p \<and>
         status p = ''pending'' \<and> (\<exists>c. pixCode p = Some c \<and> c \<noteq> []) \<and>
         timers w1 (nextHandle w) =
           Some \<lparr>due = now w + 10000, period = None, action = AutoApprove (id_payment p)\<rparr> \<and>
         (\<forall>k f. f ''paid'' = None \<longrightarrow>
            fire (nextHandle w) (onStatusUpdate w1 (id_payment p) (Callback k f))
              = onStatusUpdate w1 (id_payment p) (Callback k f) \<and>
            (case fire (nextHandle w)
                    (exec (Elapse 10000) (onStatusUpdate w1 (id_payment p) (Callback k f))) of
               w3 \<Rightarrow> cached w3 (id_payment p) = Some (p\<lparr>status := ''paid''\<rparr>) \<and>
                     invocations (effects w3) = invocations (effects w1) @ [(k, ''paid'')] \<and>
                     timers w3 (nextHandle w) = None))"
    by blast
qed

lemma ex_world_mock_eq:
  "ex_world_mock =
     ex_world_no_key
       \<lparr>payments := [''3f2a'' \<mapsto> 0],
        heap := [0 \<mapsto> \<lparr>id_payment = ''3f2a'', amount = 100, description = ''2 tickets'',
                        tickets = ex_tickets, status = ''pending'',
                        pixCode = Some (generateMockPixCode (ex_env Hangs)),
                        qrCodeImage = Some (''data:image/png;base64,''
                                            @ generateMockPixCode (ex_env Hangs)),
                        createdAt = Instant 1735689600001,
                        expiresAt = Some (Instant 1735690500000)\<rparr>],
        nextRef := 1,
        timers := [0 \<mapsto> \<lparr>due = 10000, period = None, action = AutoApprove ''3f2a''\<rparr>],
        nextHandle := 1\<rparr>"
  by (simp add: ex_world_mock_def mock_createPayment_def Let_def generateQRCodeImage_def
      ex_env_simps ex_world_no_key_def AmploPayService_new_def payments_set_def ex_request_def)

theorem no_credential_no_simulation_counterexample:
  "createPayment ex_world_no_key (ex_env (Responds 120 (ex_response 201 ''pay_1'' ''pending'')))
     ex_request
     = (Inl (Error ''Error'' msg_no_key), ex_world_no_key) \<and>
   handleAdvance ex_world_no_key (ex_env (Responds 120 (ex_response 201 ''pay_1'' ''pending'')))
     ex_count
     = (Alert msg_no_key HintApiKey, ex_world_no_key) \<and>
   map_option status (cached ex_world_mock ''3f2a'') = Some ''pending'' \<and>
   map_option status
     (cached (fire 0 (exec (Elapse 10000)
                 (onStatusUpdate ex_world_mock ''3f2a'' ex_throwing_listener))) ''3f2a'')
     = Some ''pending'' \<and>
   invocations
     (effects (fire 0 (exec (Elapse 10000)
                 (onStatusUpdate ex_world_mock ''3f2a'' ex_throwing_listener))))
     = [(2, ''paid'')]"
proof -
  have real: "createPayment ex_world_no_key
                (ex_env (Responds 120 (ex_response 201 ''pay_1'' ''pending''))) ex_request
              = (Inl (Error ''Error'' msg_no_key), ex_world_no_key)"
    "handleAdvance ex_world_no_key
       (ex_env (Responds 120 (ex_response 201 ''pay_1'' ''pending''))) ex_count
     = (Alert msg_no_key HintApiKey, ex_world_no_key)"
    by (simp_all add: createPayment_def handleAdvance_def createPixPayment_def
        ex_world_no_key_def AmploPayService_new_def getTotalTickets_def entries_def
        ex_count_def msg_no_key_def)
  let ?w = "(exec (Elapse 10000) (onStatusUpdate ex_world_mock ''3f2a'' ex_throwing_listener))
              \<lparr>timers := Map.empty\<rparr>"
  have f: "fire 0 (exec (Elapse 10000) (onStatusUpdate ex_world_mock ''3f2a'' ex_throwing_listener))
             = snd (updatePaymentStatus ?w ''3f2a'' ''paid'')"
    by (simp add: fire_def onStatusUpdate_def ex_world_mock_eq ex_world_no_key_def
        AmploPayService_new_def)
  have u: "updatePaymentStatus ?w ''3f2a'' ''paid''
             = (Inl ex_thrown, ?w\<lparr>effects := effects ?w @ [Invoked 2 ''paid'']\<rparr>)"
    by (rule updatePaymentStatus_throws[where f = "\<lambda>s. Some ex_thrown"])
       (simp_all add: onStatusUpdate_def ex_throwing_listener_def)
  have c0: "map_option status (cached ex_world_mock ''3f2a'') = Some ''pending''"
    by (simp add: ex_world_mock_eq cached_def)
  have c: "map_option status (cached (?w\<lparr>effects := effects ?w @ [Invoked 2 ''paid'']\<rparr>) ''3f2a'')
             = Some ''pending''"
    and e: "invocations (effects (?w\<lparr>effects := effects ?w @ [Invoked 2 ''paid'']\<rparr>))
             = [(2, ''paid'')]"
    by (simp_all add: cached_def onStatusUpdate_def ex_world_mock_eq ex_world_no_key_def
        AmploPayService_new_def)
  show ?thesis
    unfolding f u using real c0 c e by simp
qed

theorem no_credential_no_simulation_witness:
  "apiKey ex_world_no_key = [] \<and> 0 < getTotalTickets ex_count \<and>
   handleAdvance ex_world_no_key (ex_env Hangs) ex_count
     = (Alert msg_no_key HintApiKey, ex_world_no_key) \<and>
   mock_createPayment ex_world_no_key (ex_env Hangs) ex_request = (Inr 0, ex_world_mock) \<and>
   map_option status (heap ex_world_mock 0) = Some ''pending'' \<and>
   map_option status
     (cached (fire 0 (exec (Elapse 10000) (onStatusUpdate ex_world_mock ''3f2a'' ex_listener)))
        ''3f2a'') = Some ''paid'' \<and>
   invocations
     (effects (fire 0 (exec (Elapse 10000) (onStatusUpdate ex_world_mock ''3f2a'' ex_listener))))
     = [(1, ''paid'')]"
proof -
  have k: "apiKey ex_world_no_key = []" and nh: "nextHandle ex_world_no_key = 0"
    by (simp_all add: ex_world_no_key_def AmploPayService_new_def)
  have t: "0 < getTotalTickets ex_count"
    by (simp add: getTotalTickets_def entries_def ex_count_def)
  have "fst (mock_createPayment ex_world_no_key (ex_env Hangs) ex_request) = Inr 0"
    by (simp add: mock_createPayment_def Let_def generateQRCodeImage_def ex_env_simps
        ex_world_no_key_def AmploPayService_new_def)
  then have m: "mock_createPayment ex_world_no_key (ex_env Hangs) ex_request = (Inr 0, ex_world_mock)"
    by (simp add: ex_world_mock_def prod_eq_iff)
  have i: "map_option id_payment (heap ex_world_mock 0) = Some ''3f2a''"
    and e: "effects ex_world_mock = []"
    by (simp_all add: ex_world_mock_def mock_createPayment_def Let_def generateQRCodeImage_def
        ex_env_simps ex_world_no_key_def AmploPayService_new_def payments_set_def)
  from no_credential_no_simulation[of ex_world_no_key "ex_env Hangs" ex_request ex_count
         None True "''-''" 0 0 ex_world_mock] k t m
  obtain p where p: "heap ex_world_mock 0 = Some p" "status p = ''pending''"
    and h: "handleAdvance ex_world_no_key (ex_env Hangs) ex_count
              = (Alert msg_no_key HintApiKey, ex_world_no_key)"
    and f: "\<forall>k f. f ''paid'' = None \<longrightarrow>
            (case fire (nextHandle ex_world_no_key)
                    (exec (Elapse 10000) (onStatusUpdate ex_world_mock (id_payment p) (Callback k f))) of
               w3 \<Rightarrow> cached w3 (id_payment p) = Some (p\<lparr>status := ''paid''\<rparr>) \<and>
                     invocations (effects w3) = invocations (effects ex_world_mock) @ [(k, ''paid'')] \<and>
                     timers w3 (nextHandle ex_world_no_key) = None)"
    by auto
  from p(1) i have idp: "id_payment p = ''3f2a''"
    by simp
  from f[rule_format, of "\<lambda>s. None" 1] have
    "cached (fire 0 (exec (Elapse 10000) (onStatusUpdate ex_world_mock ''3f2a'' ex_listener)))
        ''3f2a'' = Some (p\<lparr>status := ''paid''\<rparr>)"
    "invocations
     (effects (fire 0 (exec (Elapse 10000) (onStatusUpdate ex_world_mock ''3f2a'' ex_listener))))
     = [(1, ''paid'')]"
    by (simp_all add: idp nh e ex_listener_def)
  with k t h m p show ?thesis
    by simp
qed

section \<open>Polling\<close>




end
